theory Spec2Isabelle
  imports Complex_Main "HOL-Library.Char_ord" "HOL-Library.List_Lexorder"
begin

section \<open>Values and exceptions of the Python being modelled\<close>

text \<open>
  The scripts read and write JSON documents and treat them as dynamically typed Python
  values. A document is a \<open>json\<close> value; an object is an association list in
  insertion order, read with \<open>map_of\<close> (the parsed objects have distinct keys).
  Numbers are rationals: the scripts never compute with them.
\<close>

datatype json =
    JNull
  | JBool bool
  | JNum rat
  | JStr string
  | JArr "json list"
  | JObj "(string \<times> json) list"

datatype exn =
    KeyError string
  | TypeError
  | AttributeError
  | OSError
  | JSONDecodeError

text \<open>The text an exception is rendered to inside an f-string; symbolic.\<close>

fun exn_str :: "exn \<Rightarrow> string" where
  "exn_str (KeyError k) = ''KeyError '' @ k"
| "exn_str TypeError = ''TypeError''"
| "exn_str AttributeError = ''AttributeError''"
| "exn_str OSError = ''OSError''"
| "exn_str JSONDecodeError = ''JSONDecodeError''"

definition ebind :: "exn + 'a \<Rightarrow> ('a \<Rightarrow> exn + 'b) \<Rightarrow> exn + 'b" where
  "ebind m f = (case m of Inl e \<Rightarrow> Inl e | Inr x \<Rightarrow> f x)"

fun starts_with :: "string \<Rightarrow> string \<Rightarrow> bool" where
  "starts_with [] s = True"
| "starts_with (a # as) [] = False"
| "starts_with (a # as) (b # bs) = (a = b \<and> starts_with as bs)"

definition ends_with :: "string \<Rightarrow> string \<Rightarrow> bool" where
  "ends_with suf s = starts_with (rev suf) (rev s)"

fun is_infix :: "string \<Rightarrow> string \<Rightarrow> bool" where
  "is_infix k [] = (k = [])"
| "is_infix k (c # cs) = (starts_with k (c # cs) \<or> is_infix k cs)"

fun join :: "string \<Rightarrow> string list \<Rightarrow> string" where
  "join sep [] = []"
| "join sep [x] = x"
| "join sep (x # y # ys) = x @ sep @ join sep (y # ys)"

text \<open>\<open>d[k] = v\<close> on a dict: the key keeps its place, a new key goes last.\<close>

fun dict_set :: "(string \<times> json) list \<Rightarrow> string \<Rightarrow> json \<Rightarrow> (string \<times> json) list" where
  "dict_set [] k v = [(k, v)]"
| "dict_set ((k', v') # kvs) k v =
     (if k' = k then (k, v) # kvs else (k', v') # dict_set kvs k v)"

text \<open>\<open>x.get(k, default)\<close>: only a dict has the method.\<close>

fun py_get :: "json \<Rightarrow> string \<Rightarrow> json \<Rightarrow> exn + json" where
  "py_get (JObj kvs) k d = Inr (case map_of kvs k of Some v \<Rightarrow> v | None \<Rightarrow> d)"
| "py_get _ k d = Inl AttributeError"

text \<open>\<open>k in x\<close> for a string \<open>k\<close>: key of a dict, element of a list, substring of a
  string; the other values are not iterable.\<close>

fun py_contains :: "string \<Rightarrow> json \<Rightarrow> exn + bool" where
  "py_contains k (JObj kvs) = Inr (map_of kvs k \<noteq> None)"
| "py_contains k (JArr xs) = Inr (JStr k \<in> set xs)"
| "py_contains k (JStr s) = Inr (is_infix k s)"
| "py_contains k _ = Inl TypeError"

text \<open>\<open>x[k]\<close> and \<open>x[k] = v\<close> for a string \<open>k\<close>.\<close>

fun py_getitem :: "json \<Rightarrow> string \<Rightarrow> exn + json" where
  "py_getitem (JObj kvs) k = (case map_of kvs k of Some v \<Rightarrow> Inr v | None \<Rightarrow> Inl (KeyError k))"
| "py_getitem _ k = Inl TypeError"

fun py_setitem :: "json \<Rightarrow> string \<Rightarrow> json \<Rightarrow> exn + json" where
  "py_setitem (JObj kvs) k v = Inr (JObj (dict_set kvs k v))"
| "py_setitem _ k v = Inl TypeError"

text \<open>\<open>x[k1][k2] = v\<close>: the inner value is mutated in place.\<close>

definition py_setitem2 :: "json \<Rightarrow> string \<Rightarrow> string \<Rightarrow> json \<Rightarrow> exn + json" where
  "py_setitem2 x k1 k2 v =
     ebind (py_getitem x k1) (\<lambda>inner.
     ebind (py_setitem inner k2 v) (\<lambda>inner'.
     py_setitem x k1 inner'))"

text \<open>\<open>x.append(v)\<close>: only a list has the method.\<close>

fun py_append :: "json \<Rightarrow> json \<Rightarrow> exn + json" where
  "py_append (JArr xs) v = Inr (JArr (xs @ [v]))"
| "py_append _ v = Inl AttributeError"

text \<open>\<open>for p in a + b\<close>: the values the loop visits. Two lists concatenate, two strings
  concatenate and are visited character by character; numbers add to a number, which is
  not iterable; everything else does not add.\<close>

fun py_add_iter :: "json \<Rightarrow> json \<Rightarrow> exn + json list" where
  "py_add_iter (JArr xs) (JArr ys) = Inr (xs @ ys)"
| "py_add_iter (JStr s) (JStr t) = Inr (map (\<lambda>c. JStr [c]) (s @ t))"
| "py_add_iter _ _ = Inl TypeError"

text \<open>\<open>[f for f in fields if f not in x]\<close>.\<close>

fun missing_in :: "string list \<Rightarrow> json \<Rightarrow> exn + string list" where
  "missing_in [] x = Inr []"
| "missing_in (f # fs) x =
     ebind (py_contains f x) (\<lambda>b.
     ebind (missing_in fs x) (\<lambda>rest.
     Inr (if b then rest else f # rest)))"

section \<open>The file system under the project root\<close>

text \<open>
  A file's bytes are either the serialisation of a JSON document (\<open>Doc\<close>, what
  \<open>json.dump\<close> writes and \<open>json.load\<close> reads back) or bytes that \<open>json.load\<close> rejects
  (\<open>Raw\<close>, text in UTF-8). \<open>readable\<close> and \<open>writable\<close> are the permissions \<open>open\<close>
  tests; file sizes are reported by the scripts but never tested, and are left out.

  The state is the tree of \<open>progress-state/\<close> (the ProgressRecord, the checkpoint
  directory in the order a directory scan yields it, the per-checkpoint snapshots, the
  backups, the recovery log) and the files of the project, keyed by their path
  relative to the project root. Paths are compared as written: \<open>project s p\<close> is what
  the path \<open>p\<close>, spelled as a checkpoint spells it, leads to under the project root.
  The resolution of a path is the operating system's, so two spellings of one path are
  two keys of the state, and whatever \<open>Path.exists()\<close> finds at a path is an entry.
  The one path of a checkpoint's file list that the scripts themselves produce inside
  \<open>progress-state/\<close> is the ProgressRecord's, and it is resolved to the ProgressRecord.

  \<open>stat_raises s p\<close> says that \<open>os.stat\<close> fails at the path \<open>p\<close> with an error that
  \<open>Path.exists()\<close> does not turn into False. \<open>exists()\<close> answers False for ENOENT,
  ENOTDIR, EBADF and ELOOP only; any other OSError (ENAMETOOLONG for a name longer than
  the file system allows, EACCES for a directory on the way that may not be searched)
  leaves it as an exception.
\<close>

datatype body = Raw string | Doc json

record disk_file =
  readable :: bool
  writable :: bool
  mtime :: int
  body :: body

record log_entry =
  le_timestamp :: string
  le_operation :: string
  le_checkpoint_id :: string
  le_success :: bool
  le_files_restored :: nat
  le_files_failed :: nat
  le_messages :: "string list"

record fs =
  state_file :: "disk_file option"
  checkpoints_dir :: "(string \<times> disk_file) list"
  snapshots :: "string \<Rightarrow> string \<Rightarrow> disk_file option"
  backups :: "string \<Rightarrow> disk_file option"
  recovery_log :: "log_entry list"
  log_writable :: bool
  project :: "string \<Rightarrow> disk_file option"
  stat_raises :: "string \<Rightarrow> bool"

definition state_path :: string where
  "state_path = ''progress-state/PROGRESS_STATE.json''"

definition lookup_path :: "fs \<Rightarrow> string \<Rightarrow> disk_file option" where
  "lookup_path s p = (if p = state_path then state_file s else project s p)"

definition store_path :: "fs \<Rightarrow> string \<Rightarrow> disk_file \<Rightarrow> fs" where
  "store_path s p f =
     (if p = state_path then s\<lparr>state_file := Some f\<rparr>
      else s\<lparr>project := (project s)(p \<mapsto> f)\<rparr>)"

text \<open>\<open>with open(f) as h: json.load(h)\<close>.\<close>

definition json_load :: "disk_file \<Rightarrow> exn + json" where
  "json_load f =
     (if \<not> readable f then Inl OSError
      else case body f of Raw _ \<Rightarrow> Inl JSONDecodeError | Doc j \<Rightarrow> Inr j)"

text \<open>\<open>glob('*.json')\<close> and \<open>glob('AUTO_CP*.json')\<close> over a directory listing.\<close>

definition glob_json :: "(string \<times> disk_file) list \<Rightarrow> (string \<times> disk_file) list" where
  "glob_json dir = filter (\<lambda>(n, f). ends_with ''.json'' n) dir"

definition is_auto_name :: "string \<Rightarrow> bool" where
  "is_auto_name n =
     (starts_with ''AUTO_CP'' n \<and> ends_with ''.json'' n \<and> 12 \<le> length n)"

definition glob_auto :: "(string \<times> disk_file) list \<Rightarrow> (string \<times> disk_file) list" where
  "glob_auto dir = filter (\<lambda>(n, f). is_auto_name n) dir"

section \<open>checkpoint\_recovery.py\<close>

subsection \<open>\_find\_checkpoint\_file\<close>

text \<open>The test of one file inside the \<open>try\<close>: any exception skips the file.\<close>

definition file_has_id :: "disk_file \<Rightarrow> string \<Rightarrow> exn + bool" where
  "file_has_id f cid =
     ebind (json_load f) (\<lambda>data.
     ebind (py_get data ''checkpoint'' (JObj [])) (\<lambda>info.
     ebind (py_get info ''checkpoint_id'' JNull) (\<lambda>v.
     Inr (v = JStr cid))))"

fun find_in :: "(string \<times> disk_file) list \<Rightarrow> string \<Rightarrow> (string \<times> disk_file) option" where
  "find_in [] cid = None"
| "find_in ((n, f) # rest) cid =
     (case file_has_id f cid of
        Inr True \<Rightarrow> Some (n, f)
      | _ \<Rightarrow> find_in rest cid)"

definition find_checkpoint_file :: "fs \<Rightarrow> string \<Rightarrow> (string \<times> disk_file) option" where
  "find_checkpoint_file s cid = find_in (glob_json (checkpoints_dir s)) cid"

subsection \<open>validate\_checkpoint\<close>

record file_check =
  fc_exists :: bool
  fc_readable :: bool

record validation_result =
  checkpoint_id :: string
  valid :: bool
  issues :: "string list"
  warnings :: "string list"
  file_checks :: "(string \<times> file_check) list"
  data_integrity :: bool
  recovery_feasible :: bool

definition required_fields :: "string list" where
  "required_fields = [''checkpoint_id'', ''timestamp'', ''description'', ''phase'', ''task'']"

definition required_state_sections :: "string list" where
  "required_state_sections = [''metadata'', ''current_session'', ''phases'']"

text \<open>\<open>file_checks[file_path] = {...}\<close>.\<close>

fun checks_set :: "(string \<times> file_check) list \<Rightarrow> string \<Rightarrow> file_check \<Rightarrow> (string \<times> file_check) list" where
  "checks_set [] k v = [(k, v)]"
| "checks_set ((k', v') # kvs) k v =
     (if k' = k then (k, v) # kvs else (k', v') # checks_set kvs k v)"

text \<open>The dictionary built for one path (lines 126 to 130). Its first entry is
  \<open>full_path.exists()\<close>, which raises when \<open>stat\<close> fails with an error it does not
  swallow; the exception leaves the dictionary display before the assignment to
  \<open>file_checks[file_path]\<close>, so nothing is recorded for that path. Once \<open>exists()\<close> has
  answered, \<open>os.access\<close> and \<open>stat()\<close> are asked about an existing file only.\<close>

definition check_file :: "fs \<Rightarrow> string \<Rightarrow> exn + file_check" where
  "check_file s p =
     (if stat_raises s p then Inl OSError
      else Inr \<lparr>fc_exists = (lookup_path s p \<noteq> None),
                fc_readable = (case lookup_path s p of None \<Rightarrow> False | Some f \<Rightarrow> readable f)\<rparr>)"

text \<open>The loop over \<open>all_files\<close>: \<open>project_root / file_path\<close> raises TypeError on a value
  that is not a string and the test of a path may raise OSError; either ends the loop,
  and the checks recorded so far stay in the result.\<close>

fun check_files :: "fs \<Rightarrow> json list \<Rightarrow> (string \<times> file_check) list \<Rightarrow>
    exn option \<times> (string \<times> file_check) list" where
  "check_files s [] acc = (None, acc)"
| "check_files s (JStr p # rest) acc =
     (case check_file s p of
        Inl e \<Rightarrow> (Some e, acc)
      | Inr c \<Rightarrow> check_files s rest (checks_set acc p c))"
| "check_files s (_ # rest) acc = (Some TypeError, acc)"

text \<open>The body of the \<open>try\<close> once the file is loaded. The result so far is returned
  with the exception, since the \<open>except\<close> clause only appends an issue to it.\<close>

definition validate_structure :: "json \<Rightarrow> validation_result \<Rightarrow>
    exn + (json \<times> validation_result)" where
  "validate_structure checkpoint_data r =
     ebind (py_get checkpoint_data ''checkpoint'' (JObj [])) (\<lambda>checkpoint_info.
     ebind (py_get checkpoint_data ''full_state'' (JObj [])) (\<lambda>full_state.
     ebind (missing_in required_fields checkpoint_info) (\<lambda>missing_fields.
     Inr (checkpoint_info,
          if missing_fields \<noteq> []
          then r\<lparr>issues := issues r @ [''Missing required fields: '' @ join '', '' missing_fields]\<rparr>
          else r\<lparr>data_integrity := True\<rparr>))))"

definition validate_sections :: "json \<Rightarrow> validation_result \<Rightarrow> exn + validation_result" where
  "validate_sections checkpoint_data r =
     ebind (py_get checkpoint_data ''full_state'' (JObj [])) (\<lambda>full_state.
     ebind (missing_in required_state_sections full_state) (\<lambda>missing_sections.
     Inr (if missing_sections \<noteq> []
          then r\<lparr>warnings := warnings r @ [''Missing state sections: '' @ join '', '' missing_sections]\<rparr>
          else r)))"

definition referenced_files :: "json \<Rightarrow> exn + json list" where
  "referenced_files checkpoint_info =
     ebind (py_get checkpoint_info ''files_modified'' (JArr [])) (\<lambda>files_modified.
     ebind (py_get checkpoint_info ''files_created'' (JArr [])) (\<lambda>files_created.
     py_add_iter files_modified files_created))"

definition validate_verdict :: "validation_result \<Rightarrow> validation_result" where
  "validate_verdict r =
     (let has_critical_issues = (0 < length (issues r));
          has_file_issues = list_ex (\<lambda>(p, c). \<not> fc_exists c) (file_checks r);
          r1 = r\<lparr>valid := (\<not> has_critical_issues \<and> data_integrity r)\<rparr>;
          r2 = r1\<lparr>recovery_feasible := (valid r1 \<and> \<not> has_file_issues)\<rparr>
      in if has_file_issues
         then r2\<lparr>warnings := warnings r2 @ [''Some referenced files are missing or inaccessible'']\<rparr>
         else r2)"

definition validate_loaded :: "fs \<Rightarrow> json \<Rightarrow> validation_result \<Rightarrow>
    exn option \<times> validation_result" where
  "validate_loaded s checkpoint_data r =
     (case validate_structure checkpoint_data r of
        Inl e \<Rightarrow> (Some e, r)
      | Inr (checkpoint_info, r1) \<Rightarrow>
          (case validate_sections checkpoint_data r1 of
             Inl e \<Rightarrow> (Some e, r1)
           | Inr r2 \<Rightarrow>
               (case referenced_files checkpoint_info of
                  Inl e \<Rightarrow> (Some e, r2)
                | Inr all_files \<Rightarrow>
                    (case check_files s all_files (file_checks r2) of
                       (Some e, checks) \<Rightarrow> (Some e, r2\<lparr>file_checks := checks\<rparr>)
                     | (None, checks) \<Rightarrow>
                         (None, validate_verdict (r2\<lparr>file_checks := checks\<rparr>))))))"

definition validation_start :: "string \<Rightarrow> validation_result" where
  "validation_start cid =
     \<lparr>checkpoint_id = cid, valid = False, issues = [], warnings = [], file_checks = [],
      data_integrity = False, recovery_feasible = False\<rparr>"

definition validate_checkpoint :: "fs \<Rightarrow> string \<Rightarrow> validation_result" where
  "validate_checkpoint s cid =
     (let r = validation_start cid in
      case find_checkpoint_file s cid of
        None \<Rightarrow> r\<lparr>issues := issues r @ [''Checkpoint file not found for '' @ cid]\<rparr>
      | Some (n, f) \<Rightarrow>
          (case json_load f of
             Inl JSONDecodeError \<Rightarrow>
               r\<lparr>issues := issues r @ [''Checkpoint file is corrupted: '' @ exn_str JSONDecodeError]\<rparr>
           | Inl e \<Rightarrow> r\<lparr>issues := issues r @ [''Validation error: '' @ exn_str e]\<rparr>
           | Inr checkpoint_data \<Rightarrow>
               (case validate_loaded s checkpoint_data r of
                  (None, r') \<Rightarrow> r'
                | (Some e, r') \<Rightarrow>
                    r'\<lparr>issues := issues r' @ [''Validation error: '' @ exn_str e]\<rparr>)))"

subsection \<open>recover\_from\_checkpoint\<close>

text \<open>The readings of the clock one call makes, in the order of the source, and the
  modification time a file written during the call gets.\<close>

record recovery_clock =
  rc_recovery_time :: string
  rc_backup_stamp :: string
  rc_last_updated :: string
  rc_session_stamp :: string
  rc_last_activity :: string
  rc_log_time :: string
  rc_write_mtime :: int

text \<open>\<open>files_failed\<close> holds whatever value the loop was visiting when the exception
  was raised, so it is a list of JSON values.\<close>

record recovery_result =
  rr_checkpoint_id :: string
  success :: bool
  backup_created :: bool
  files_restored :: "string list"
  files_failed :: "json list"
  state_restored :: bool
  recovery_time :: string
  messages :: "string list"

text \<open>A value inside an f-string: a string is itself, anything else is symbolic.\<close>

fun py_str :: "json \<Rightarrow> string" where
  "py_str (JStr s) = s"
| "py_str _ = ''<value>''"

text \<open>\<open>shutil.copy2(src, dst)\<close>: the source must be readable and an existing
  destination writable; the destination gets the bytes, the times and the permission
  bits of the source.\<close>

definition copy2_fails :: "disk_file \<Rightarrow> disk_file option \<Rightarrow> bool" where
  "copy2_fails src dst =
     (\<not> readable src \<or> (case dst of None \<Rightarrow> False | Some d \<Rightarrow> \<not> writable d))"

definition create_recovery_backup :: "recovery_clock \<Rightarrow> fs \<Rightarrow> fs \<times> bool" where
  "create_recovery_backup clock s =
     (case state_file s of
        None \<Rightarrow> (s, True)
      | Some f \<Rightarrow>
          (let backup_filename = ''pre_recovery_'' @ rc_backup_stamp clock @ ''.json'' in
           if copy2_fails f (backups s backup_filename) then (s, False)
           else (s\<lparr>backups := (backups s)(backup_filename \<mapsto> f)\<rparr>, True)))"

text \<open>\<open>with open(self.state_file, 'w') as f: json.dump(state, f)\<close>.\<close>

definition write_state :: "int \<Rightarrow> fs \<Rightarrow> json \<Rightarrow> exn + fs" where
  "write_state t s j =
     (case state_file s of
        None \<Rightarrow>
          Inr (s\<lparr>state_file := Some \<lparr>readable = True, writable = True, mtime = t, body = Doc j\<rparr>\<rparr>)
      | Some f \<Rightarrow>
          if writable f then Inr (s\<lparr>state_file := Some (f\<lparr>mtime := t, body := Doc j\<rparr>)\<rparr>)
          else Inl OSError)"

definition recovery_history_entry :: "string \<Rightarrow> string \<Rightarrow> bool \<Rightarrow> json" where
  "recovery_history_entry cid rtime backup_success =
     JObj [(''recovered_from'', JStr cid),
           (''recovery_time'', JStr rtime),
           (''previous_state_backed_up'', JBool backup_success)]"

text \<open>The stamping of the embedded state (lines 188 to 200).\<close>

definition stamp_state :: "recovery_clock \<Rightarrow> string \<Rightarrow> bool \<Rightarrow> json \<Rightarrow> exn + json" where
  "stamp_state clock cid backup_success full_state =
     ebind (py_setitem2 full_state ''metadata'' ''last_updated'' (JStr (rc_last_updated clock))) (\<lambda>st1.
     ebind (py_setitem2 st1 ''current_session'' ''session_id''
              (JStr (''recovery_'' @ rc_session_stamp clock))) (\<lambda>st2.
     ebind (py_setitem2 st2 ''current_session'' ''last_activity''
              (JStr (rc_last_activity clock))) (\<lambda>st3.
     ebind (py_contains ''recovery_history'' st3) (\<lambda>present.
     ebind (if present then Inr st3 else py_setitem st3 ''recovery_history'' (JArr [])) (\<lambda>st4.
     ebind (py_getitem st4 ''recovery_history'') (\<lambda>history.
     ebind (py_append history
              (recovery_history_entry cid (rc_recovery_time clock) backup_success)) (\<lambda>history'.
     py_setitem st4 ''recovery_history'' history')))))))"

text \<open>The inner \<open>try\<close> (lines 186 to 207): stamp, then overwrite the ProgressRecord.\<close>

definition restore_progress_state :: "recovery_clock \<Rightarrow> fs \<Rightarrow> string \<Rightarrow> bool \<Rightarrow> json \<Rightarrow> exn + fs" where
  "restore_progress_state clock s cid backup_success full_state =
     ebind (stamp_state clock cid backup_success full_state) (\<lambda>st.
     write_state (rc_write_mtime clock) s st)"

text \<open>One pass of the loop over \<open>files_to_restore\<close>, with its own \<open>try\<close>.\<close>

fun restore_one :: "string \<Rightarrow> json \<Rightarrow> fs \<times> recovery_result \<Rightarrow> fs \<times> recovery_result" where
  "restore_one cid (JStr p) (s, r) =
     (case snapshots s cid p of
        None \<Rightarrow> (s, r\<lparr>messages := messages r @ [''No snapshot found for '' @ p]\<rparr>)
      | Some snap \<Rightarrow>
          if copy2_fails snap (lookup_path s p)
          then (s, r\<lparr>files_failed := files_failed r @ [JStr p],
                     messages := messages r @ [''Failed to restore '' @ p @ '': '' @ exn_str OSError]\<rparr>)
          else (store_path s p snap, r\<lparr>files_restored := files_restored r @ [p]\<rparr>))"
| "restore_one cid x (s, r) =
     (s, r\<lparr>files_failed := files_failed r @ [x],
           messages := messages r @ [''Failed to restore '' @ py_str x @ '': '' @ exn_str TypeError]\<rparr>)"

fun restore_files :: "string \<Rightarrow> json list \<Rightarrow> fs \<times> recovery_result \<Rightarrow> fs \<times> recovery_result" where
  "restore_files cid [] st = st"
| "restore_files cid (x # rest) st = restore_files cid rest (restore_one cid x st)"

definition log_recovery_operation :: "recovery_clock \<Rightarrow> fs \<Rightarrow> string \<Rightarrow> recovery_result \<Rightarrow> fs" where
  "log_recovery_operation clock s cid result =
     (let entry = \<lparr>le_timestamp = rc_log_time clock,
                   le_operation = ''CHECKPOINT_RECOVERY'',
                   le_checkpoint_id = cid,
                   le_success = success result,
                   le_files_restored = length (files_restored result),
                   le_files_failed = length (files_failed result),
                   le_messages = messages result\<rparr>
      in if log_writable s then s\<lparr>recovery_log := recovery_log s @ [entry]\<rparr> else s)"

text \<open>Steps (2) to (4): backup, state restore, snapshot replay, for a loaded checkpoint.\<close>

definition backup_and_restore_state :: "recovery_clock \<Rightarrow> fs \<Rightarrow> string \<Rightarrow> json \<Rightarrow>
    recovery_result \<Rightarrow> fs \<times> recovery_result" where
  "backup_and_restore_state clock s cid full_state r =
     (let (s1, backup_success) = create_recovery_backup clock s;
          r1 = r\<lparr>backup_created := backup_success\<rparr>;
          r2 = (if \<not> backup_success
                then r1\<lparr>messages := messages r1 @ [''Warning: Could not create recovery backup'']\<rparr>
                else r1)
      in case restore_progress_state clock s1 cid backup_success full_state of
           Inr s2 \<Rightarrow>
             (s2, r2\<lparr>state_restored := True,
                     messages := messages r2 @ [''Progress state restored successfully'']\<rparr>)
         | Inl e \<Rightarrow>
             (s1, r2\<lparr>messages := messages r2 @ [''Failed to restore progress state: '' @ exn_str e]\<rparr>))"

definition finish_recovery :: "recovery_clock \<Rightarrow> string \<Rightarrow> fs \<times> recovery_result \<Rightarrow> fs \<times> recovery_result" where
  "finish_recovery clock cid st =
     (let (s3, r4) = st;
          s4 = log_recovery_operation clock s3 cid r4;
          r5 = r4\<lparr>success := (state_restored r4 \<and> length (files_failed r4) = 0)\<rparr>
      in if success r5
         then (s4, r5\<lparr>messages := messages r5 @ [''Recovery from '' @ cid @ '' completed successfully'']\<rparr>)
         else (s4, r5\<lparr>messages := messages r5 @ [''Recovery from '' @ cid @ '' completed with issues'']\<rparr>))"

text \<open>The outer \<open>try\<close> after the validation gate; an exception leaves the state and the
  result as they are at that point.\<close>

definition recover_validated :: "recovery_clock \<Rightarrow> fs \<Rightarrow> string \<Rightarrow> recovery_result \<Rightarrow>
    fs \<times> recovery_result \<times> exn option" where
  "recover_validated clock s cid r =
     (case find_checkpoint_file s cid of
        None \<Rightarrow> (s, r, Some TypeError)
      | Some (n, f) \<Rightarrow>
          (case json_load f of
             Inl e \<Rightarrow> (s, r, Some e)
           | Inr checkpoint_data \<Rightarrow>
               (case py_get checkpoint_data ''checkpoint'' (JObj []) of
                  Inl e \<Rightarrow> (s, r, Some e)
                | Inr checkpoint_info \<Rightarrow>
                    (case py_get checkpoint_data ''full_state'' (JObj []) of
                       Inl e \<Rightarrow> (s, r, Some e)
                     | Inr full_state \<Rightarrow>
                         (let (s2, r3) = backup_and_restore_state clock s cid full_state r in
                          case referenced_files checkpoint_info of
                            Inl e \<Rightarrow> (s2, r3, Some e)
                          | Inr files_to_restore \<Rightarrow>
                              (let (s4, r6) = finish_recovery clock cid
                                     (restore_files cid files_to_restore (s2, r3))
                               in (s4, r6, None)))))))"

definition recovery_start :: "recovery_clock \<Rightarrow> string \<Rightarrow> recovery_result" where
  "recovery_start clock cid =
     \<lparr>rr_checkpoint_id = cid, success = False, backup_created = False, files_restored = [],
      files_failed = [], state_restored = False, recovery_time = rc_recovery_time clock,
      messages = []\<rparr>"

definition recover_from_checkpoint :: "recovery_clock \<Rightarrow> fs \<Rightarrow> string \<Rightarrow> fs \<times> recovery_result" where
  "recover_from_checkpoint clock s cid =
     (let r = recovery_start clock cid;
          validation = validate_checkpoint s cid
      in if \<not> recovery_feasible validation
         then (s, r\<lparr>messages := (messages r @ [''Checkpoint validation failed'']) @ issues validation\<rparr>)
         else (case recover_validated clock s cid r of
                 (s', r', None) \<Rightarrow> (s', r')
               | (s', r', Some e) \<Rightarrow>
                   (s', r'\<lparr>messages := messages r' @ [''Recovery failed: '' @ exn_str e]\<rparr>)))"

subsection \<open>list\_checkpoints and emergency\_recovery\<close>

record checkpoint_entry =
  ce_id :: json
  ce_timestamp :: json
  ce_description :: json
  ce_type :: json
  ce_phase :: json
  ce_task :: json
  ce_progress :: json
  ce_file :: string
  ce_validation_status :: json

definition dict_get :: "(string \<times> json) list \<Rightarrow> string \<Rightarrow> json \<Rightarrow> json" where
  "dict_get kvs k d = (case map_of kvs k of Some v \<Rightarrow> v | None \<Rightarrow> d)"

text \<open>The body of the loop of \<open>list_checkpoints\<close> for one file.\<close>

definition list_entry :: "string \<times> disk_file \<Rightarrow> exn + checkpoint_entry" where
  "list_entry nf =
     ebind (json_load (snd nf)) (\<lambda>data.
     ebind (py_get data ''checkpoint'' (JObj [])) (\<lambda>checkpoint_info.
     case checkpoint_info of
       JObj kvs \<Rightarrow>
         Inr \<lparr>ce_id = dict_get kvs ''checkpoint_id'' (JStr ''UNKNOWN''),
              ce_timestamp = dict_get kvs ''timestamp'' (JStr []),
              ce_description = dict_get kvs ''description'' (JStr []),
              ce_type = dict_get kvs ''type'' (JStr ''MANUAL''),
              ce_phase = dict_get kvs ''phase'' (JNum 0),
              ce_task = dict_get kvs ''task'' (JStr []),
              ce_progress = dict_get kvs ''completion_percentage'' (JNum 0),
              ce_file = fst nf,
              ce_validation_status = dict_get kvs ''validation_status'' (JStr ''UNKNOWN'')\<rparr>
     | _ \<Rightarrow> Inl AttributeError))"

text \<open>The \<open>for\<close> loop stands inside one \<open>try\<close>: the first exception ends the loop, and
  the entries appended so far are what is left.\<close>

fun scan_checkpoints :: "(string \<times> disk_file) list \<Rightarrow> checkpoint_entry list \<Rightarrow> checkpoint_entry list" where
  "scan_checkpoints [] acc = acc"
| "scan_checkpoints (nf # rest) acc =
     (case list_entry nf of
        Inl e \<Rightarrow> acc
      | Inr c \<Rightarrow> scan_checkpoints rest (acc @ [c]))"

text \<open>\<open>checkpoints.sort(key=lambda x: x['timestamp'], reverse=True)\<close>, outside the
  \<open>try\<close>. A list of at most one entry is not compared. Strings compare with strings and
  numbers with numbers (a stable descending sort: the list is reversed, sorted stably
  and reversed again); null, objects and mixed kinds raise TypeError. Arrays compare
  element by element in Python, which is not modelled: such a listing is \<open>Unmodelled\<close>.\<close>

datatype outside = Raised exn | Unmodelled

fun is_jstr :: "json \<Rightarrow> bool" where
  "is_jstr (JStr s) = True"
| "is_jstr _ = False"

fun is_jnum :: "json \<Rightarrow> bool" where
  "is_jnum (JNum q) = True"
| "is_jnum (JBool b) = True"
| "is_jnum _ = False"

fun is_jarr :: "json \<Rightarrow> bool" where
  "is_jarr (JArr xs) = True"
| "is_jarr _ = False"

fun str_key :: "json \<Rightarrow> string" where
  "str_key (JStr s) = s"
| "str_key _ = []"

fun num_key :: "json \<Rightarrow> rat" where
  "num_key (JNum q) = q"
| "num_key (JBool b) = (if b then 1 else 0)"
| "num_key _ = 0"

definition sort_newest_first :: "checkpoint_entry list \<Rightarrow> outside + checkpoint_entry list" where
  "sort_newest_first cs =
     (if length cs \<le> 1 then Inr cs
      else if list_all (\<lambda>c. is_jstr (ce_timestamp c)) cs
      then Inr (rev (sort_key (\<lambda>c. str_key (ce_timestamp c)) (rev cs)))
      else if list_all (\<lambda>c. is_jnum (ce_timestamp c)) cs
      then Inr (rev (sort_key (\<lambda>c. num_key (ce_timestamp c)) (rev cs)))
      else if list_all (\<lambda>c. is_jarr (ce_timestamp c)) cs then Inl Unmodelled
      else Inl (Raised TypeError))"

definition list_checkpoints :: "fs \<Rightarrow> outside + checkpoint_entry list" where
  "list_checkpoints s = sort_newest_first (scan_checkpoints (glob_json (checkpoints_dir s)) [])"

datatype emergency_result = Failure string | Recovered recovery_result

text \<open>The loop of \<open>emergency_recovery\<close>. The ids are what the files hold; the model of
  \<open>validate_checkpoint\<close> covers the ids that are strings.\<close>

fun try_checkpoints :: "recovery_clock \<Rightarrow> fs \<Rightarrow> checkpoint_entry list \<Rightarrow>
    outside + fs \<times> emergency_result" where
  "try_checkpoints clock s [] =
     Inr (s, Failure ''No valid checkpoints found for emergency recovery'')"
| "try_checkpoints clock s (c # cs) =
     (case ce_id c of
        JStr cid \<Rightarrow>
          if recovery_feasible (validate_checkpoint s cid)
          then (let (s', r) = recover_from_checkpoint clock s cid in Inr (s', Recovered r))
          else try_checkpoints clock s cs
      | _ \<Rightarrow> Inl Unmodelled)"

definition emergency_recovery :: "recovery_clock \<Rightarrow> fs \<Rightarrow> outside + fs \<times> emergency_result" where
  "emergency_recovery clock s =
     (case list_checkpoints s of
        Inl e \<Rightarrow> Inl e
      | Inr checkpoints \<Rightarrow>
          if checkpoints = []
          then Inr (s, Failure ''No checkpoints available for emergency recovery'')
          else try_checkpoints clock s checkpoints)"

section \<open>auto\_checkpoint.py\<close>

text \<open>Times are whole ticks of the clock. The hash of the ProgressRecord is modelled by
  its content (no collisions).\<close>

datatype reason = TIME_BASED | ACTIVITY_BASED | STATE_CHANGE | MANUAL_TRIGGER

fun reason_str :: "reason \<Rightarrow> string" where
  "reason_str TIME_BASED = ''TIME_BASED''"
| "reason_str ACTIVITY_BASED = ''ACTIVITY_BASED''"
| "reason_str STATE_CHANGE = ''STATE_CHANGE''"
| "reason_str MANUAL_TRIGGER = ''MANUAL_TRIGGER''"

text \<open>\<open>reason.lower()\<close> and \<open>reason.lower().replace('_', ' ')\<close>.\<close>

fun reason_lower :: "reason \<Rightarrow> string" where
  "reason_lower TIME_BASED = ''time_based''"
| "reason_lower ACTIVITY_BASED = ''activity_based''"
| "reason_lower STATE_CHANGE = ''state_change''"
| "reason_lower MANUAL_TRIGGER = ''manual_trigger''"

fun reason_words :: "reason \<Rightarrow> string" where
  "reason_words TIME_BASED = ''time based''"
| "reason_words ACTIVITY_BASED = ''activity based''"
| "reason_words STATE_CHANGE = ''state change''"
| "reason_words MANUAL_TRIGGER = ''manual trigger''"

record daemon =
  checkpoint_interval :: int
  activity_threshold :: int
  max_checkpoints :: nat
  last_checkpoint_time :: int
  last_state_hash :: "body option"
  file_change_count :: int

text \<open>What one creation reads from outside the state: the clock, the interpreter, and
  the scan of the project tree for recently modified files.\<close>

record daemon_clock =
  dc_timestamp :: string
  dc_file_stamp :: string
  dc_mtime :: int
  dc_recent_scan :: "string list"
  dc_python_version :: string
  dc_platform :: string

text \<open>\<open>f"{n:03d}"\<close>: decimal, padded with zeros to at least three digits.\<close>

definition digit_char :: "nat \<Rightarrow> char" where
  "digit_char d = char_of (48 + d)"

fun decimal :: "nat \<Rightarrow> string" where
  "decimal n = (if n < 10 then [digit_char n] else decimal (n div 10) @ [digit_char (n mod 10)])"

declare decimal.simps [simp del]

definition format_03d :: "nat \<Rightarrow> string" where
  "format_03d n = replicate (3 - length (decimal n)) (CHR ''0'') @ decimal n"

definition get_recently_modified_files :: "daemon_clock \<Rightarrow> string list" where
  "get_recently_modified_files clock = take 20 (dc_recent_scan clock)"

text \<open>The \<open>checkpoint\<close> dict (lines 232 to 247).\<close>

definition auto_checkpoint_info :: "daemon \<Rightarrow> daemon_clock \<Rightarrow> json \<Rightarrow> string \<Rightarrow> reason \<Rightarrow> exn + json" where
  "auto_checkpoint_info d clock state cid reason =
     ebind (py_get state ''metadata'' (JObj [])) (\<lambda>m1.
     ebind (py_get m1 ''current_phase'' (JNum 1)) (\<lambda>phase.
     ebind (py_get state ''current_session'' (JObj [])) (\<lambda>c1.
     ebind (py_get c1 ''active_task'' (JStr ''UNKNOWN'')) (\<lambda>task.
     ebind (py_get state ''metadata'' (JObj [])) (\<lambda>m2.
     ebind (py_get m2 ''overall_progress'' (JNum 0)) (\<lambda>progress.
     ebind (py_get state ''current_session'' (JObj [])) (\<lambda>c2.
     ebind (py_get c2 ''context_summary'' (JStr [])) (\<lambda>context.
     Inr (JObj
       [(''checkpoint_id'', JStr cid),
        (''timestamp'', JStr (dc_timestamp clock)),
        (''type'', JStr ''AUTO''),
        (''trigger'', JStr (reason_str reason)),
        (''description'', JStr (''Automatic checkpoint ('' @ reason_words reason @ '')'')),
        (''phase'', phase),
        (''task'', task),
        (''completion_percentage'', progress),
        (''files_modified'', JArr (map JStr (get_recently_modified_files clock))),
        (''context_snapshot'', context),
        (''next_actions'', JArr [JStr ''Continue with current task'']),
        (''auto_generated'', JBool True),
        (''file_change_count'', JNum (of_int (file_change_count d))),
        (''validation_status'', JStr ''PENDING'')])))))))))"

definition auto_checkpoint_data :: "daemon_clock \<Rightarrow> json \<Rightarrow> json \<Rightarrow> json" where
  "auto_checkpoint_data clock checkpoint state =
     JObj [(''checkpoint'', checkpoint),
           (''full_state'', state),
           (''system_info'',
              JObj [(''python_version'', JStr (dc_python_version clock)),
                    (''platform'', JStr (dc_platform clock)),
                    (''daemon_version'', JStr ''1.0'')])]"

text \<open>\<open>with open(checkpoint_file, 'w') as f: json.dump(...)\<close>: an existing file of that
  name is overwritten where it stands; a new file is put last in the scan order.\<close>

fun write_checkpoint_file :: "(string \<times> disk_file) list \<Rightarrow> string \<Rightarrow> int \<Rightarrow> json \<Rightarrow>
    exn + (string \<times> disk_file) list" where
  "write_checkpoint_file [] name t j =
     Inr [(name, \<lparr>readable = True, writable = True, mtime = t, body = Doc j\<rparr>)]"
| "write_checkpoint_file ((n, f) # rest) name t j =
     (if n = name
      then (if writable f then Inr ((n, f\<lparr>mtime := t, body := Doc j\<rparr>) # rest) else Inl OSError)
      else ebind (write_checkpoint_file rest name t j) (\<lambda>rest'. Inr ((n, f) # rest')))"

text \<open>\<open>x[k1][k2][k3] = v\<close>.\<close>

definition py_setitem3 :: "json \<Rightarrow> string \<Rightarrow> string \<Rightarrow> string \<Rightarrow> json \<Rightarrow> exn + json" where
  "py_setitem3 x k1 k2 k3 v =
     ebind (py_getitem x k1) (\<lambda>inner.
     ebind (py_setitem2 inner k2 k3 v) (\<lambda>inner'.
     py_setitem x k1 inner'))"

text \<open>\<open>if k not in x: x[k] = v\<close>.\<close>

definition py_setdefault :: "json \<Rightarrow> string \<Rightarrow> json \<Rightarrow> exn + json" where
  "py_setdefault x k v =
     ebind (py_contains k x) (\<lambda>present. if present then Inr x else py_setitem x k v)"

text \<open>The update of the loaded state (lines 266 to 284).\<close>

definition auto_update_state :: "daemon_clock \<Rightarrow> json \<Rightarrow> json \<Rightarrow> string \<Rightarrow> nat \<Rightarrow> exn + json" where
  "auto_update_state clock state checkpoint cid checkpoint_count =
     ebind (py_setdefault state ''checkpoints'' (JArr [])) (\<lambda>st1.
     ebind (py_getitem st1 ''checkpoints'') (\<lambda>cps.
     ebind (py_append cps checkpoint) (\<lambda>cps'.
     ebind (py_setitem st1 ''checkpoints'' cps') (\<lambda>st2.
     ebind (py_setdefault st2 ''automation'' (JObj [])) (\<lambda>st3.
     ebind (py_getitem st3 ''automation'') (\<lambda>automation.
     ebind (py_setdefault automation ''auto_checkpoint'' (JObj [])) (\<lambda>automation'.
     ebind (py_setitem st3 ''automation'' automation') (\<lambda>st4.
     ebind (py_setitem3 st4 ''automation'' ''auto_checkpoint'' ''last_auto_checkpoint''
              (JStr (dc_timestamp clock))) (\<lambda>st5.
     ebind (py_setitem3 st5 ''automation'' ''auto_checkpoint'' ''total_auto_checkpoints''
              (JNum (of_nat checkpoint_count))) (\<lambda>st6.
     ebind (py_setdefault st6 ''recovery'' (JObj [])) (\<lambda>st7.
     ebind (py_setitem2 st7 ''recovery'' ''last_known_good_state'' (JStr cid)) (\<lambda>st8.
     py_setitem2 st8 ''recovery'' ''rollback_available'' (JBool True)))))))))))))"

text \<open>\<open>_cleanup_old_checkpoints\<close>: \<open>auto_checkpoints[:-max_checkpoints]\<close> is empty when
  \<open>max_checkpoints\<close> is 0. Unlinking has no failure in this model.\<close>

definition cleanup_old_checkpoints :: "daemon \<Rightarrow> (string \<times> disk_file) list \<Rightarrow> (string \<times> disk_file) list" where
  "cleanup_old_checkpoints d dir =
     (let auto_checkpoints = sort_key (\<lambda>(n, f). mtime f) (glob_auto dir) in
      if length auto_checkpoints > max_checkpoints d
      then (let old_checkpoints =
                  (if max_checkpoints d = 0 then []
                   else take (length auto_checkpoints - max_checkpoints d) auto_checkpoints)
            in filter (\<lambda>(n, f). n \<notin> set (map fst old_checkpoints)) dir)
      else dir)"

definition next_auto_id :: "fs \<Rightarrow> string" where
  "next_auto_id s = ''AUTO_CP'' @ format_03d (length (glob_auto (checkpoints_dir s)) + 1)"

definition auto_checkpoint_name :: "daemon_clock \<Rightarrow> string \<Rightarrow> reason \<Rightarrow> string" where
  "auto_checkpoint_name clock cid reason =
     cid @ ''_'' @ dc_file_stamp clock @ ''_'' @ reason_lower reason @ ''.json''"

text \<open>\<open>_create_auto_checkpoint\<close>: every exception is caught by the one \<open>try\<close>, with the
  writes made before it left in place.\<close>

definition create_auto_checkpoint :: "daemon \<Rightarrow> daemon_clock \<Rightarrow> fs \<Rightarrow> reason \<Rightarrow> fs" where
  "create_auto_checkpoint d clock s reason =
     (case state_file s of
        None \<Rightarrow> s
      | Some sf \<Rightarrow>
          (case json_load sf of
             Inl e \<Rightarrow> s
           | Inr state \<Rightarrow>
               (let checkpoint_count = length (glob_auto (checkpoints_dir s)) + 1;
                    cid = next_auto_id s
                in case auto_checkpoint_info d clock state cid reason of
                     Inl e \<Rightarrow> s
                   | Inr checkpoint \<Rightarrow>
                       (case write_checkpoint_file (checkpoints_dir s)
                               (auto_checkpoint_name clock cid reason) (dc_mtime clock)
                               (auto_checkpoint_data clock checkpoint state) of
                          Inl e \<Rightarrow> s
                        | Inr dir1 \<Rightarrow>
                            (let s1 = s\<lparr>checkpoints_dir := dir1\<rparr> in
                             case auto_update_state clock state checkpoint cid checkpoint_count of
                               Inl e \<Rightarrow> s1
                             | Inr state' \<Rightarrow>
                                 (case write_state (dc_mtime clock) s1 state' of
                                    Inl e \<Rightarrow> s1
                                  | Inr s2 \<Rightarrow>
                                      s2\<lparr>checkpoints_dir :=
                                           cleanup_old_checkpoints d (checkpoints_dir s2)\<rparr>))))))"

text \<open>\<open>_state_changed\<close>: the first reading sets the baseline.\<close>

definition state_changed :: "daemon \<Rightarrow> fs \<Rightarrow> bool \<times> daemon" where
  "state_changed d s =
     (case state_file s of
        None \<Rightarrow> (False, d)
      | Some f \<Rightarrow>
          if \<not> readable f then (False, d)
          else (case last_state_hash d of
                  None \<Rightarrow> (False, d\<lparr>last_state_hash := Some (body f)\<rparr>)
                | Some h \<Rightarrow>
                    if body f \<noteq> h then (True, d\<lparr>last_state_hash := Some (body f)\<rparr>)
                    else (False, d)))"

text \<open>The test of one cycle of \<open>_checkpoint_loop\<close> (lines 113 to 128), at time
  \<open>current_time\<close>: the reason, if any, and the daemon after the test.\<close>

definition checkpoint_decision :: "daemon \<Rightarrow> int \<Rightarrow> fs \<Rightarrow> reason option \<times> daemon" where
  "checkpoint_decision d current_time s =
     (let time_since_last = current_time - last_checkpoint_time d in
      if time_since_last \<ge> checkpoint_interval d then (Some TIME_BASED, d)
      else if file_change_count d \<ge> activity_threshold d then (Some ACTIVITY_BASED, d)
      else (case state_changed d s of
              (True, d') \<Rightarrow> (Some STATE_CHANGE, d')
            | (False, d') \<Rightarrow> (None, d')))"

text \<open>The rest of the cycle (lines 130 to 133), for a reason that was chosen.\<close>

definition fire_checkpoint :: "daemon \<Rightarrow> int \<Rightarrow> daemon_clock \<Rightarrow> fs \<Rightarrow> reason \<Rightarrow> daemon \<times> fs" where
  "fire_checkpoint d current_time clock s reason =
     (let s' = create_auto_checkpoint d clock s reason
      in (d\<lparr>last_checkpoint_time := current_time, file_change_count := 0\<rparr>, s'))"

definition checkpoint_cycle :: "daemon \<Rightarrow> int \<Rightarrow> daemon_clock \<Rightarrow> fs \<Rightarrow> daemon \<times> fs \<times> reason option" where
  "checkpoint_cycle d current_time clock s =
     (case checkpoint_decision d current_time s of
        (Some reason, d1) \<Rightarrow>
          (let (d2, s') = fire_checkpoint d1 current_time clock s reason in (d2, s', Some reason))
      | (None, d1) \<Rightarrow> (d1, s, None))"

text \<open>One cycle of \<open>_monitor_loop\<close>, given the changes its scan found.\<close>

definition monitor_cycle :: "daemon \<Rightarrow> string list \<Rightarrow> daemon" where
  "monitor_cycle d changes =
     (if changes \<noteq> [] then d\<lparr>file_change_count := file_change_count d + int (length changes)\<rparr>
      else d)"

subsection \<open>The two loops of the daemon, interleaved\<close>

text \<open>
  The daemon's two threads share the attributes of the daemon object; the code has no
  lock. A run is a list of steps, each the next part of one thread, executed without
  interruption: for the checkpoint thread the test of a cycle (lines 113 to 128) and,
  when a reason was chosen, the rest of that cycle (lines 131 to 133, the creation and
  the two resets); for the monitor thread the update of the counter (line 153) with the
  changes its scan found. \<open>th_seen\<close>, \<open>th_counted\<close> and \<open>th_lost\<close> are bookkeeping: the
  value of the counter when the pending decision was taken, the sum of the values that
  the decisions taken so far saw, and the increments that a reset erased although the
  decision had not seen them.
\<close>

record threads =
  th_daemon :: daemon
  th_fs :: fs
  th_pending :: "(reason \<times> int) option"
  th_seen :: int
  th_counted :: int
  th_lost :: int

datatype action = Decision int daemon_clock | Scan "string list"

fun thread_step :: "action \<Rightarrow> threads \<Rightarrow> threads" where
  "thread_step (Decision now clock) t =
     (case th_pending t of
        None \<Rightarrow>
          (case checkpoint_decision (th_daemon t) now (th_fs t) of
             (Some reason, d1) \<Rightarrow>
               t\<lparr>th_daemon := d1, th_pending := Some (reason, now),
                  th_seen := file_change_count d1,
                  th_counted := th_counted t + file_change_count d1\<rparr>
           | (None, d1) \<Rightarrow> t\<lparr>th_daemon := d1\<rparr>)
      | Some (reason, current_time) \<Rightarrow>
          (let (d2, s') = fire_checkpoint (th_daemon t) current_time clock (th_fs t) reason
           in t\<lparr>th_daemon := d2, th_fs := s', th_pending := None,
                 th_lost := th_lost t + (file_change_count (th_daemon t) - th_seen t)\<rparr>))"
| "thread_step (Scan changes) t = t\<lparr>th_daemon := monitor_cycle (th_daemon t) changes\<rparr>"

fun run_threads :: "action list \<Rightarrow> threads \<Rightarrow> threads" where
  "run_threads [] t = t"
| "run_threads (a # as) t = run_threads as (thread_step a t)"

text \<open>The runs in which no update of the monitor thread falls between the test and the
  reset of a cycle of the checkpoint thread.\<close>

fun is_scan :: "action \<Rightarrow> bool" where
  "is_scan (Scan changes) = True"
| "is_scan (Decision now clock) = False"

fun scans_between_cycles :: "action list \<Rightarrow> threads \<Rightarrow> bool" where
  "scans_between_cycles [] t = True"
| "scans_between_cycles (a # as) t =
     ((if is_scan a then th_pending t = None else True)
      \<and> scans_between_cycles as (thread_step a t))"

text \<open>The increments that the monitor thread applies in a run.\<close>

fun scanned :: "action list \<Rightarrow> int" where
  "scanned [] = 0"
| "scanned (Scan changes # as) = int (length changes) + scanned as"
| "scanned (Decision now clock # as) = scanned as"

section \<open>resume\_progress.py: the id of a manual checkpoint\<close>

text \<open>\<open>len(x)\<close>.\<close>

fun py_len :: "json \<Rightarrow> exn + nat" where
  "py_len (JArr xs) = Inr (length xs)"
| "py_len (JObj kvs) = Inr (length kvs)"
| "py_len (JStr s) = Inr (length s)"
| "py_len _ = Inl TypeError"

text \<open>\<open>checkpoint_save\<close> up to the id it allocates (lines 153 to 157), for the state
  that \<open>load_progress_state\<close> returned.\<close>

definition checkpoint_save_id :: "json \<Rightarrow> exn + string" where
  "checkpoint_save_id state =
     ebind (py_get state ''checkpoints'' (JArr [])) (\<lambda>cps.
     ebind (py_len cps) (\<lambda>n.
     Inr (''CP'' @ format_03d (n + 1))))"

section \<open>Predicates the properties are stated with\<close>

subsection \<open>What the validator is compared with\<close>

text \<open>The five required fields are present in the checkpoint section; every value of
  the modified and created lists is the path of an existing file.\<close>

definition path_listed_exists :: "fs \<Rightarrow> json \<Rightarrow> bool" where
  "path_listed_exists s x = (case x of JStr p \<Rightarrow> lookup_path s p \<noteq> None | _ \<Rightarrow> False)"

definition listed_files_exist :: "fs \<Rightarrow> json \<Rightarrow> bool" where
  "listed_files_exist s checkpoint_info =
     (case referenced_files checkpoint_info of
        Inl e \<Rightarrow> False
      | Inr xs \<Rightarrow> list_all (path_listed_exists s) xs)"

definition checks_ok :: "fs \<Rightarrow> (string \<times> file_check) list \<Rightarrow> bool" where
  "checks_ok s acc = (\<forall>(k, v) \<in> set acc. check_file s k = Inr v)"

definition fields_present :: "json \<Rightarrow> bool" where
  "fields_present checkpoint_info =
     (case checkpoint_info of
        JObj kvs \<Rightarrow> list_all (\<lambda>f. map_of kvs f \<noteq> None) required_fields
      | _ \<Rightarrow> False)"

subsection \<open>What the recovery is compared with\<close>



definition record_phase :: "json \<Rightarrow> exn + json" where
  "record_phase state =
     ebind (py_get state ''metadata'' (JObj [])) (\<lambda>m. py_get m ''current_phase'' (JNum 1))"

definition record_task :: "json \<Rightarrow> exn + json" where
  "record_task state =
     ebind (py_get state ''current_session'' (JObj [])) (\<lambda>c. py_get c ''active_task'' (JStr ''UNKNOWN''))"

definition record_progress :: "json \<Rightarrow> exn + json" where
  "record_progress state =
     ebind (py_get state ''metadata'' (JObj [])) (\<lambda>m. py_get m ''overall_progress'' (JNum 0))"

definition field2 :: "json \<Rightarrow> string \<Rightarrow> string \<Rightarrow> exn + json" where
  "field2 x k1 k2 = ebind (py_getitem x k1) (\<lambda>inner. py_getitem inner k2)"

fun is_jobj :: "json \<Rightarrow> bool" where
  "is_jobj (JObj kvs) = True"
| "is_jobj _ = False"

definition well_formed_record :: "json \<Rightarrow> bool" where
  "well_formed_record R =
     (case R of
        JObj kvs \<Rightarrow>
          (case map_of kvs ''metadata'' of Some m \<Rightarrow> is_jobj m | None \<Rightarrow> False)
          \<and> (case map_of kvs ''current_session'' of Some c \<Rightarrow> is_jobj c | None \<Rightarrow> False)
          \<and> (case map_of kvs ''recovery_history'' of Some h \<Rightarrow> is_jarr h | None \<Rightarrow> True)
      | _ \<Rightarrow> False)"

definition state_writable :: "fs \<Rightarrow> bool" where
  "state_writable s = (case state_file s of None \<Rightarrow> True | Some f \<Rightarrow> writable f)"

subsection \<open>What the identifiers and the counter are compared with\<close>

definition digit_value :: "char \<Rightarrow> nat" where
  "digit_value c = of_char c - 48"

definition decimal_value :: "string \<Rightarrow> nat" where
  "decimal_value s = foldl (\<lambda>acc c. 10 * acc + digit_value c) 0 s"

text \<open>The id that the counting of the manual records alone would give: the entries of the
  ProgressRecord's checkpoint list whose id starts with \<open>CP\<close>, plus one.\<close>

definition entry_is_manual :: "json \<Rightarrow> bool" where
  "entry_is_manual c =
     (case c of
        JObj kvs \<Rightarrow> (case map_of kvs ''checkpoint_id'' of
                       Some (JStr i) \<Rightarrow> starts_with ''CP'' i
                     | _ \<Rightarrow> False)
      | _ \<Rightarrow> False)"

definition manual_count_id :: "json \<Rightarrow> exn + string" where
  "manual_count_id state =
     ebind (py_get state ''checkpoints'' (JArr [])) (\<lambda>cps.
     case cps of
       JArr xs \<Rightarrow> Inr (''CP'' @ format_03d (length (filter entry_is_manual xs) + 1))
     | _ \<Rightarrow> Inl TypeError)"

text \<open>The id that each file of a directory holds.\<close>

definition dir_ids :: "(string \<times> disk_file) list \<Rightarrow> (string \<times> json) list" where
  "dir_ids dir =
     map (\<lambda>(n, f). (n, case ebind (json_load f) (\<lambda>data.
                           ebind (py_get data ''checkpoint'' (JObj [])) (\<lambda>info.
                           py_get info ''checkpoint_id'' JNull)) of
                         Inr v \<Rightarrow> v | Inl e \<Rightarrow> JNull)) dir"

text \<open>What the counter, the counts seen and the counts lost add up to; between the test
  and the reset of a cycle the counter is what the test saw.\<close>

definition balance :: "threads \<Rightarrow> int" where
  "balance t =
     file_change_count (th_daemon t) + th_counted t + th_lost t
       - (if th_pending t = None then 0 else th_seen t)"

definition seen_exact :: "threads \<Rightarrow> bool" where
  "seen_exact t = (th_pending t = None \<or> file_change_count (th_daemon t) = th_seen t)"

section \<open>Concrete project states\<close>

definition plain_file :: "body \<Rightarrow> disk_file" where
  "plain_file b = \<lparr>readable = True, writable = True, mtime = 0, body = b\<rparr>"

definition ex_state :: json where
  "ex_state =
     JObj [(''metadata'', JObj [(''current_phase'', JNum 2), (''overall_progress'', JNum 40),
                               (''last_updated'', JStr ''2025-01-01T09:00:00'')]),
           (''current_session'', JObj [(''session_id'', JStr ''session_20250101_0900''),
                                      (''active_task'', JStr ''P2.1.1'')]),
           (''phases'', JObj [])]"

definition ex_checkpoint :: "string \<Rightarrow> json list \<Rightarrow> json \<Rightarrow> json" where
  "ex_checkpoint cid files st =
     JObj [(''checkpoint'',
              JObj [(''checkpoint_id'', JStr cid), (''timestamp'', JStr ''2025-01-01T10:00:00''),
                    (''description'', JStr ''before refactoring''), (''phase'', JNum 2),
                    (''task'', JStr ''P2.1.1''), (''files_modified'', JArr files)]),
           (''full_state'', st)]"

definition ex_fs :: "(string \<times> disk_file) list \<Rightarrow> (string \<Rightarrow> disk_file option) \<Rightarrow> fs" where
  "ex_fs dir proj =
     \<lparr>state_file = Some (plain_file (Doc (JObj []))), checkpoints_dir = dir,
      snapshots = (\<lambda>cid p. None), backups = (\<lambda>n. None), recovery_log = [],
      log_writable = True, project = proj, stat_raises = (\<lambda>p. False)\<rparr>"

definition ex_fs_missing :: fs where
  "ex_fs_missing =
     ex_fs [(''CP001_20250101_1000_before-refactoring.json'',
             plain_file (Doc (ex_checkpoint ''CP001'' [JStr ''src/app.py''] ex_state)))]
           (\<lambda>p. None)"

text \<open>The same checkpoint listing a file that is missing too, under a name of 300
  characters: longer than the 255 bytes a file name may have, so that \<open>stat\<close> fails
  with ENAMETOOLONG.\<close>

definition ex_long_name :: string where
  "ex_long_name = ''src/'' @ replicate 300 (CHR ''a'')"

definition ex_fs_long_name :: fs where
  "ex_fs_long_name =
     (ex_fs [(''CP001_20250101_1000_before-refactoring.json'',
              plain_file (Doc (ex_checkpoint ''CP001'' [JStr ex_long_name] ex_state)))]
            (\<lambda>p. None))
       \<lparr>stat_raises := (\<lambda>p. p = ex_long_name)\<rparr>"

definition ex_clock :: recovery_clock where
  "ex_clock =
     \<lparr>rc_recovery_time = ''2025-01-02T08:00:00'', rc_backup_stamp = ''20250102_080000'',
      rc_last_updated = ''2025-01-02T08:00:01'', rc_session_stamp = ''20250102_0800'',
      rc_last_activity = ''2025-01-02T08:00:01'', rc_log_time = ''2025-01-02T08:00:02'',
      rc_write_mtime = 100\<rparr>"

definition unreadable_file :: "body \<Rightarrow> disk_file" where
  "unreadable_file b = \<lparr>readable = False, writable = True, mtime = 0, body = b\<rparr>"

text \<open>A checkpoint whose two files exist, with an unreadable snapshot of the first, a
  good snapshot of the second, and an embedded state without a metadata section.\<close>

definition ex_fs_partial :: fs where
  "ex_fs_partial =
     \<lparr>state_file = Some (plain_file (Doc ex_state)),
      checkpoints_dir =
        [(''CP002_20250101_1100_partial.json'',
          plain_file (Doc (ex_checkpoint ''CP002'' [JStr ''a.py'', JStr ''b.py''] (JObj []))))],
      snapshots = (\<lambda>cid p.
        if cid = ''CP002'' \<and> p = ''a.py'' then Some (unreadable_file (Raw ''old a''))
        else if cid = ''CP002'' \<and> p = ''b.py'' then Some (plain_file (Raw ''old b''))
        else None),
      backups = (\<lambda>n. None), recovery_log = [], log_writable = True,
      project = (\<lambda>p.
        if p = ''a.py'' then Some (plain_file (Raw ''new a''))
        else if p = ''b.py'' then Some (plain_file (Raw ''new b''))
        else None),
      stat_raises = (\<lambda>p. False)\<rparr>"

definition ex_daemon :: daemon where
  "ex_daemon =
     \<lparr>checkpoint_interval = 1800, activity_threshold = 3, max_checkpoints = 50,
      last_checkpoint_time = 0, last_state_hash = None, file_change_count = 0\<rparr>"

definition ex_dclock :: daemon_clock where
  "ex_dclock =
     \<lparr>dc_timestamp = ''2025-01-01T10:30:00'', dc_file_stamp = ''20250101_1030'',
      dc_mtime = 1800, dc_recent_scan = [''src/app.py''],
      dc_python_version = ''3.11'', dc_platform = ''linux''\<rparr>"

text \<open>A project with a live ProgressRecord and no checkpoint yet, and the state the
  daemon leaves after one automatic checkpoint.\<close>

definition ex_fs_live :: fs where
  "ex_fs_live =
     \<lparr>state_file = Some (plain_file (Doc ex_state)), checkpoints_dir = [],
      snapshots = (\<lambda>cid p. None), backups = (\<lambda>n. None), recovery_log = [],
      log_writable = True,
      project = (\<lambda>p. if p = ''src/app.py'' then Some (plain_file (Raw ''print(1)'')) else None),
      stat_raises = (\<lambda>p. False)\<rparr>"

definition ex_fs_created :: fs where
  "ex_fs_created = create_auto_checkpoint ex_daemon ex_dclock ex_fs_live TIME_BASED"

definition ex_auto_info :: json where
  "ex_auto_info =
     (case auto_checkpoint_info ex_daemon ex_dclock ex_state ''AUTO_CP001'' TIME_BASED of
        Inr x \<Rightarrow> x
      | Inl e \<Rightarrow> JNull)"

definition ex_live_state :: json where
  "ex_live_state =
     (case state_file ex_fs_created of
        Some f \<Rightarrow> (case body f of Doc j \<Rightarrow> j | Raw b \<Rightarrow> JNull)
      | None \<Rightarrow> JNull)"

text \<open>A checkpoint directory that already holds fifty automatic checkpoints, the
  retention maximum, and the state after two more creations.\<close>

definition ex_auto_file :: "int \<Rightarrow> string \<times> disk_file" where
  "ex_auto_file i =
     (''AUTO_CP'' @ format_03d (nat i) @ ''_20250101_0000_time_based.json'',
      \<lparr>readable = True, writable = True, mtime = i,
       body = Doc (JObj [(''checkpoint'',
                 JObj [(''checkpoint_id'', JStr (''AUTO_CP'' @ format_03d (nat i)))])])\<rparr>)"

definition ex_fs_full :: fs where
  "ex_fs_full = ex_fs_live\<lparr>checkpoints_dir := map ex_auto_file [1..50]\<rparr>"

definition ex_dclock_later :: daemon_clock where
  "ex_dclock_later =
     ex_dclock\<lparr>dc_timestamp := ''2025-01-01T11:00:00'', dc_file_stamp := ''20250101_1100'',
               dc_mtime := 3600\<rparr>"

definition ex_fs_two_more :: fs where
  "ex_fs_two_more =
     create_auto_checkpoint ex_daemon ex_dclock_later
       (create_auto_checkpoint ex_daemon ex_dclock ex_fs_full TIME_BASED) TIME_BASED"

text \<open>A directory whose scan yields a file that does not parse before a good checkpoint.\<close>

definition ex_fs_corrupt_first :: fs where
  "ex_fs_corrupt_first =
     ex_fs_created\<lparr>checkpoints_dir :=
       (''AUTO_CP000_20250101_0900_broken.json'', plain_file (Raw ''{''))
         # checkpoints_dir ex_fs_created\<rparr>"

definition ex_threads :: threads where
  "ex_threads =
     \<lparr>th_daemon = ex_daemon, th_fs = ex_fs_live, th_pending = None, th_seen = 0,
      th_counted = 0, th_lost = 0\<rparr>"

section \<open>Properties\<close>

lemma find_in_has_id: "find_in dir cid = Some (n, f) \<Longrightarrow> file_has_id f cid = Inr True \<and> (n, f) \<in> set dir"
proof (induction dir)
  case Nil
  then show ?case by simp
next
  case (Cons a dir)
  obtain n' f' where a: "a = (n', f')" by (cases a)
  show ?case
  proof (cases "file_has_id f' cid = Inr True")
    case True
    with Cons.prems a show ?thesis by simp
  next
    case False
    with Cons.prems a have "find_in dir cid = Some (n, f)"
      by (auto split: sum.splits bool.splits)
    with Cons.IH show ?thesis by simp
  qed
qed

lemma py_get_Inr: "py_get x k d = Inr v \<Longrightarrow> \<exists>kvs. x = JObj kvs"
  by (cases x) simp_all

lemma file_has_id_loaded:
  assumes "file_has_id f cid = Inr True"
  shows "\<exists>kvs ikvs. json_load f = Inr (JObj kvs)
           \<and> py_get (JObj kvs) ''checkpoint'' (JObj []) = Inr (JObj ikvs)
           \<and> map_of ikvs ''checkpoint_id'' = Some (JStr cid)"
proof -
  from assms obtain data where d: "json_load f = Inr data"
    by (auto simp: file_has_id_def ebind_def split: sum.splits)
  with assms obtain info where i: "py_get data ''checkpoint'' (JObj []) = Inr info"
    by (auto simp: file_has_id_def ebind_def split: sum.splits)
  with assms d obtain v where v: "py_get info ''checkpoint_id'' JNull = Inr v" "v = JStr cid"
    by (auto simp: file_has_id_def ebind_def split: sum.splits)
  from i obtain kvs where k: "data = JObj kvs" using py_get_Inr by blast
  from v obtain ikvs where ik: "info = JObj ikvs" using py_get_Inr by blast
  from v ik have "map_of ikvs ''checkpoint_id'' = Some (JStr cid)"
    by (auto split: option.splits)
  with d i k ik show ?thesis by simp
qed

lemma missing_in_obj:
  "missing_in fs (JObj kvs) = Inr (filter (\<lambda>f. map_of kvs f = None) fs)"
  by (induction fs) (simp_all add: ebind_def)

lemma checks_set_set:
  "checks_ok s acc \<Longrightarrow> check_file s p = Inr c \<Longrightarrow>
     set (checks_set acc p c) = insert (p, c) (set acc)"
proof (induction acc)
  case Nil
  then show ?case by simp
next
  case (Cons a acc)
  obtain k v where a: "a = (k, v)" by (cases a)
  from Cons.prems a have v: "check_file s k = Inr v" and ok: "checks_ok s acc"
    by (simp_all add: checks_ok_def)
  show ?case
  proof (cases "k = p")
    case True
    with a v Cons.prems(2) show ?thesis by auto
  next
    case False
    with a Cons.IH[OF ok Cons.prems(2)] show ?thesis by auto
  qed
qed

lemma checks_ok_set:
  "checks_ok s acc \<Longrightarrow> check_file s p = Inr c \<Longrightarrow> checks_ok s (checks_set acc p c)"
  using checks_set_set[of s acc p c] by (auto simp: checks_ok_def)

lemma check_file_Inr:
  "check_file s p = Inr c \<Longrightarrow> \<not> stat_raises s p \<and> fc_exists c = (lookup_path s p \<noteq> None)"
  by (auto simp: check_file_def split: if_splits)

lemma check_files_None:
  "check_files s xs acc = (None, checks) \<Longrightarrow> checks_ok s acc \<Longrightarrow>
     checks_ok s checks \<and>
     (list_ex (\<lambda>(p, c). \<not> fc_exists c) checks \<longleftrightarrow>
        list_ex (\<lambda>(p, c). \<not> fc_exists c) acc \<or> \<not> list_all (path_listed_exists s) xs)"
proof (induction xs arbitrary: acc)
  case Nil
  then show ?case by simp
next
  case (Cons x xs)
  from Cons.prems(1) obtain p where x: "x = JStr p" by (cases x) simp_all
  from Cons.prems(1) x obtain c where c: "check_file s p = Inr c"
    and rest: "check_files s xs (checks_set acc p c) = (None, checks)"
    by (cases "check_file s p") simp_all
  from Cons.prems(2) c have ok: "checks_ok s (checks_set acc p c)" by (rule checks_ok_set)
  note IH = Cons.IH[OF rest ok]
  have "list_ex (\<lambda>(p, c). \<not> fc_exists c) (checks_set acc p c) \<longleftrightarrow>
        list_ex (\<lambda>(p, c). \<not> fc_exists c) acc \<or> \<not> path_listed_exists s (JStr p)"
    using checks_set_set[OF Cons.prems(2) c] check_file_Inr[OF c]
    by (auto simp: list_ex_iff path_listed_exists_def)
  with IH x show ?case by auto
qed

lemma check_files_exn_indep:
  "stat_raises s' = stat_raises s \<Longrightarrow>
     fst (check_files s xs acc) = fst (check_files s' xs acc')"
proof (induction xs arbitrary: acc acc')
  case Nil
  then show ?case by simp
next
  case (Cons x xs)
  show ?case
  proof (cases x)
    case (JStr p)
    show ?thesis
    proof (cases "stat_raises s p")
      case True
      with JStr Cons.prems show ?thesis by (simp add: check_file_def)
    next
      case False
      with JStr Cons.prems Cons.IH[OF Cons.prems] show ?thesis
        by (simp add: check_file_def)
    qed
  qed simp_all
qed

lemma filter_empty_list_all: "(filter P xs = []) = list_all (\<lambda>x. \<not> P x) xs"
  by (induction xs) auto

lemma validate_structure_obj:
  assumes "py_get data ''checkpoint'' (JObj []) = Inr (JObj ikvs)"
  shows "\<exists>r1. validate_structure data r = Inr (JObj ikvs, r1)
           \<and> data_integrity r1 = (data_integrity r \<or> fields_present (JObj ikvs))
           \<and> (issues r1 = issues r) = fields_present (JObj ikvs)
           \<and> (fields_present (JObj ikvs) \<or> (\<exists>m. issues r1 = issues r @ [m]))
           \<and> valid r1 = valid r \<and> recovery_feasible r1 = recovery_feasible r
           \<and> file_checks r1 = file_checks r \<and> warnings r1 = warnings r"
proof -
  from assms obtain kvs where k: "data = JObj kvs" using py_get_Inr by blast
  show ?thesis using assms
    by (simp add: k validate_structure_def ebind_def missing_in_obj fields_present_def
        filter_empty_list_all)
qed

lemma validate_sections_keeps:
  "validate_sections data r = Inr r2 \<Longrightarrow>
     issues r2 = issues r \<and> data_integrity r2 = data_integrity r \<and> valid r2 = valid r
     \<and> recovery_feasible r2 = recovery_feasible r \<and> file_checks r2 = file_checks r"
  by (auto simp: validate_sections_def ebind_def split: sum.splits if_splits)

lemma validate_verdict_facts:
  "valid (validate_verdict r) = (issues r = [] \<and> data_integrity r)"
  "issues (validate_verdict r) = issues r"
  "data_integrity (validate_verdict r) = data_integrity r"
  "recovery_feasible (validate_verdict r) =
     (issues r = [] \<and> data_integrity r \<and> \<not> list_ex (\<lambda>(p, c). \<not> fc_exists c) (file_checks r))"
  "list_ex (\<lambda>(p, c). \<not> fc_exists c) (file_checks r) \<Longrightarrow>
     ''Some referenced files are missing or inaccessible'' \<in> set (warnings (validate_verdict r))"
  by (simp_all add: validate_verdict_def Let_def)

lemma validate_loaded_facts:
  assumes info: "py_get data ''checkpoint'' (JObj []) = Inr (JObj ikvs)"
    and r0: "r0 = validation_start cid"
    and res: "validate_loaded s data r0 = (e, r)"
  shows "data_integrity r = fields_present (JObj ikvs)
    \<and> (issues r = []) = fields_present (JObj ikvs)
    \<and> (case e of
          None \<Rightarrow> valid r = (issues r = [] \<and> data_integrity r)
                \<and> recovery_feasible r = (valid r \<and> listed_files_exist s (JObj ikvs))
                \<and> (listed_files_exist s (JObj ikvs) \<or>
                     ''Some referenced files are missing or inaccessible'' \<in> set (warnings r))
        | Some x \<Rightarrow> \<not> valid r \<and> \<not> recovery_feasible r)"
proof -
  from validate_structure_obj[OF info, of r0] obtain r1 where
    st: "validate_structure data r0 = Inr (JObj ikvs, r1)"
    and r1: "data_integrity r1 = fields_present (JObj ikvs)"
      "(issues r1 = []) = fields_present (JObj ikvs)"
      "valid r1 = False" "recovery_feasible r1 = False" "file_checks r1 = []"
    by (auto simp: r0 validation_start_def)
  show ?thesis
  proof (cases "validate_sections data r1")
    case (Inl x)
    with st res r1 show ?thesis
      by (auto simp: validate_loaded_def)
  next
    case (Inr r2)
    note r2 = validate_sections_keeps[OF Inr]
    show ?thesis
    proof (cases "referenced_files (JObj ikvs)")
      case (Inl x)
      with st res r1 r2 Inr show ?thesis
        by (auto simp: validate_loaded_def listed_files_exist_def)
    next
      case files: (Inr all_files)
      obtain e' checks where cf: "check_files s all_files [] = (e', checks)"
        by (cases "check_files s all_files []")
      show ?thesis
      proof (cases e')
        case None
        from check_files_None[of s all_files "[]" checks] cf None
        have ex: "list_ex (\<lambda>(p, c). \<not> fc_exists c) checks = (\<not> listed_files_exist s (JObj ikvs))"
          by (simp add: checks_ok_def listed_files_exist_def files)
        from st res r1 r2 Inr files cf None
        have r: "e = None" "r = validate_verdict (r2\<lparr>file_checks := checks\<rparr>)"
          by (auto simp: validate_loaded_def)
        with r1 r2 ex show ?thesis
          by (auto simp: validate_verdict_facts)
      next
        case (Some x)
        with st res r1 r2 Inr files cf show ?thesis
          by (auto simp: validate_loaded_def)
      qed
    qed
  qed
qed

lemma validate_loaded_indep:
  assumes "stat_raises s' = stat_raises s"
  shows "fst (validate_loaded s data r) = fst (validate_loaded s' data r)
   \<and> issues (snd (validate_loaded s data r)) = issues (snd (validate_loaded s' data r))
   \<and> data_integrity (snd (validate_loaded s data r)) = data_integrity (snd (validate_loaded s' data r))
   \<and> valid (snd (validate_loaded s data r)) = valid (snd (validate_loaded s' data r))"
proof -
  have cf: "\<And>xs acc. fst (check_files s xs acc) = fst (check_files s' xs acc)"
    using check_files_exn_indep[OF assms] by blast
  show ?thesis
    unfolding validate_loaded_def
    using cf
    apply (auto simp: validate_verdict_facts split: sum.splits prod.splits option.splits)
      apply (metis fst_conv option.distinct(1))
     apply (metis fst_conv option.distinct(1))
    apply (metis fst_conv option.inject)
    done
qed

lemma validate_found:
  assumes "find_checkpoint_file s cid = Some (n, f)"
  shows "\<exists>kvs ikvs. json_load f = Inr (JObj kvs)
      \<and> py_get (JObj kvs) ''checkpoint'' (JObj []) = Inr (JObj ikvs)
      \<and> map_of ikvs ''checkpoint_id'' = Some (JStr cid)
      \<and> validate_checkpoint s cid =
          (case validate_loaded s (JObj kvs) (validation_start cid) of
             (None, r') \<Rightarrow> r'
           | (Some e, r') \<Rightarrow> r'\<lparr>issues := issues r' @ [''Validation error: '' @ exn_str e]\<rparr>)"
proof -
  from assms have "file_has_id f cid = Inr True"
    using find_in_has_id by (simp add: find_checkpoint_file_def)
  from file_has_id_loaded[OF this] obtain kvs ikvs where
    l: "json_load f = Inr (JObj kvs)"
    "py_get (JObj kvs) ''checkpoint'' (JObj []) = Inr (JObj ikvs)"
    "map_of ikvs ''checkpoint_id'' = Some (JStr cid)" by blast
  with assms show ?thesis by (simp add: validate_checkpoint_def Let_def)
qed

text \<open>
  Claim C3, as the code has it. When the checkpoint file is found (so it opens and
  parses, and its checkpoint section is an object), the verdict of
  \<open>validate_checkpoint\<close> satisfies: \<open>valid\<close> is "no issue and \<open>data_integrity\<close>",
  \<open>data_integrity\<close> is "the five required fields are present", and
  \<open>recovery_feasible\<close> is "\<open>valid\<close> and every listed file exists". A valid checkpoint
  with a missing listed file gets the warning and is not feasible. The issues and
  \<open>valid\<close> are the same in every state with the same checkpoint directory and the same
  paths at which the existence test raises: which of the listed files exist, among
  those the test can examine, never adds an issue.
\<close>

theorem validate_checkpoint_verdict:
  assumes found: "find_checkpoint_file s cid = Some (n, f)"
  shows "\<exists>data info.
      json_load f = Inr data \<and> py_get data ''checkpoint'' (JObj []) = Inr info \<and>
      valid (validate_checkpoint s cid) =
        (issues (validate_checkpoint s cid) = [] \<and> data_integrity (validate_checkpoint s cid)) \<and>
      data_integrity (validate_checkpoint s cid) = fields_present info \<and>
      recovery_feasible (validate_checkpoint s cid) =
        (valid (validate_checkpoint s cid) \<and> listed_files_exist s info) \<and>
      (valid (validate_checkpoint s cid) \<and> \<not> listed_files_exist s info \<longrightarrow>
         ''Some referenced files are missing or inaccessible''
           \<in> set (warnings (validate_checkpoint s cid))) \<and>
      (\<forall>s'. checkpoints_dir s' = checkpoints_dir s \<and> stat_raises s' = stat_raises s \<longrightarrow>
         issues (validate_checkpoint s' cid) = issues (validate_checkpoint s cid) \<and>
         valid (validate_checkpoint s' cid) = valid (validate_checkpoint s cid))"
proof -
  from validate_found[OF found] obtain kvs ikvs where
    l: "json_load f = Inr (JObj kvs)"
      "py_get (JObj kvs) ''checkpoint'' (JObj []) = Inr (JObj ikvs)"
    and v: "validate_checkpoint s cid =
          (case validate_loaded s (JObj kvs) (validation_start cid) of
             (None, r') \<Rightarrow> r'
           | (Some e, r') \<Rightarrow> r'\<lparr>issues := issues r' @ [''Validation error: '' @ exn_str e]\<rparr>)"
    by blast
  obtain e r where res: "validate_loaded s (JObj kvs) (validation_start cid) = (e, r)"
    by (cases "validate_loaded s (JObj kvs) (validation_start cid)")
  note facts = validate_loaded_facts[OF l(2) refl res]
  have main: "valid (validate_checkpoint s cid) =
        (issues (validate_checkpoint s cid) = [] \<and> data_integrity (validate_checkpoint s cid)) \<and>
      data_integrity (validate_checkpoint s cid) = fields_present (JObj ikvs) \<and>
      recovery_feasible (validate_checkpoint s cid) =
        (valid (validate_checkpoint s cid) \<and> listed_files_exist s (JObj ikvs)) \<and>
      (valid (validate_checkpoint s cid) \<and> \<not> listed_files_exist s (JObj ikvs) \<longrightarrow>
         ''Some referenced files are missing or inaccessible''
           \<in> set (warnings (validate_checkpoint s cid)))"
    using facts by (cases e) (auto simp: v res)
  have indep: "issues (validate_checkpoint s' cid) = issues (validate_checkpoint s cid) \<and>
         valid (validate_checkpoint s' cid) = valid (validate_checkpoint s cid)"
    if d: "checkpoints_dir s' = checkpoints_dir s" and sr: "stat_raises s' = stat_raises s" for s'
  proof -
    from found d have found': "find_checkpoint_file s' cid = Some (n, f)"
      by (simp add: find_checkpoint_file_def)
    from validate_found[OF found'] l have v': "validate_checkpoint s' cid =
          (case validate_loaded s' (JObj kvs) (validation_start cid) of
             (None, r') \<Rightarrow> r'
           | (Some e, r') \<Rightarrow> r'\<lparr>issues := issues r' @ [''Validation error: '' @ exn_str e]\<rparr>)"
      by auto
    obtain e' r' where res': "validate_loaded s' (JObj kvs) (validation_start cid) = (e', r')"
      by (cases "validate_loaded s' (JObj kvs) (validation_start cid)")
    from validate_loaded_indep[OF sr, of "JObj kvs" "validation_start cid"] res res'
    have "e' = e" "issues r' = issues r" "valid r' = valid r" by simp_all
    then show ?thesis by (cases e) (simp_all add: v v' res res')
  qed
  from l main indep show ?thesis by blast
qed

lemma ex_found:
  "find_checkpoint_file ex_fs_missing ''CP001'' =
     Some (''CP001_20250101_1000_before-refactoring.json'',
           plain_file (Doc (ex_checkpoint ''CP001'' [JStr ''src/app.py''] ex_state)))"
  by code_simp

lemma ex_missing_verdict:
  "valid (validate_checkpoint ex_fs_missing ''CP001'')"
  "issues (validate_checkpoint ex_fs_missing ''CP001'') = []"
  "\<not> recovery_feasible (validate_checkpoint ex_fs_missing ''CP001'')"
  by code_simp+

theorem validate_checkpoint_verdict_witness:
  "find_checkpoint_file ex_fs_missing ''CP001'' =
     Some (''CP001_20250101_1000_before-refactoring.json'',
           plain_file (Doc (ex_checkpoint ''CP001'' [JStr ''src/app.py''] ex_state)))
   \<and> valid (validate_checkpoint ex_fs_missing ''CP001'')
   \<and> data_integrity (validate_checkpoint ex_fs_missing ''CP001'')
   \<and> \<not> recovery_feasible (validate_checkpoint ex_fs_missing ''CP001'')
   \<and> ''Some referenced files are missing or inaccessible''
        \<in> set (warnings (validate_checkpoint ex_fs_missing ''CP001''))"
proof -
  from validate_checkpoint_verdict[OF ex_found] obtain data info where
    d: "py_get data ''checkpoint'' (JObj []) = Inr info"
    and v: "valid (validate_checkpoint ex_fs_missing ''CP001'') =
        (issues (validate_checkpoint ex_fs_missing ''CP001'') = []
         \<and> data_integrity (validate_checkpoint ex_fs_missing ''CP001''))"
    and f: "recovery_feasible (validate_checkpoint ex_fs_missing ''CP001'') =
        (valid (validate_checkpoint ex_fs_missing ''CP001'') \<and> listed_files_exist ex_fs_missing info)"
    and w: "valid (validate_checkpoint ex_fs_missing ''CP001'')
         \<and> \<not> listed_files_exist ex_fs_missing info \<longrightarrow>
         ''Some referenced files are missing or inaccessible''
           \<in> set (warnings (validate_checkpoint ex_fs_missing ''CP001''))"
    by blast
  from v f w ex_missing_verdict ex_found show ?thesis by simp
qed

text \<open>
  Without the restriction to the paths that the test can examine, "a missing listed
  file produces only a warning, never a critical issue" fails. The checkpoint below has
  its five fields and lists one file, which is not there and has a name longer than a
  file name may be: \<open>exists()\<close> lets the OSError of \<open>stat\<close> through, the handler of
  \<open>validate_checkpoint\<close> appends a "Validation error" issue, and the result has
  \<open>valid = false\<close>, no warning and no file check.
\<close>

theorem validate_long_name_counterexample:
  "find_checkpoint_file ex_fs_long_name ''CP001'' =
     Some (''CP001_20250101_1000_before-refactoring.json'',
           plain_file (Doc (ex_checkpoint ''CP001'' [JStr ex_long_name] ex_state)))
   \<and> lookup_path ex_fs_long_name ex_long_name = None
   \<and> data_integrity (validate_checkpoint ex_fs_long_name ''CP001'')
   \<and> issues (validate_checkpoint ex_fs_long_name ''CP001'') = [''Validation error: OSError'']
   \<and> \<not> valid (validate_checkpoint ex_fs_long_name ''CP001'')
   \<and> warnings (validate_checkpoint ex_fs_long_name ''CP001'') = []
   \<and> file_checks (validate_checkpoint ex_fs_long_name ''CP001'') = []"
  by code_simp

text \<open>
  Claim C1. When the validator reports \<open>recovery_feasible = false\<close>,
  \<open>recover_from_checkpoint\<close> returns the state it was given, unchanged in every
  component (ProgressRecord, checkpoints, snapshots, backups, recovery log, project
  files), and a result with \<open>success = false\<close>, \<open>state_restored = false\<close>, nothing
  restored or failed, and the messages "Checkpoint validation failed" followed by the
  validator's issues.
\<close>

theorem recover_rejects_infeasible:
  assumes "\<not> recovery_feasible (validate_checkpoint s cid)"
  shows "fst (recover_from_checkpoint clock s cid) = s
    \<and> \<not> success (snd (recover_from_checkpoint clock s cid))
    \<and> \<not> state_restored (snd (recover_from_checkpoint clock s cid))
    \<and> \<not> backup_created (snd (recover_from_checkpoint clock s cid))
    \<and> files_restored (snd (recover_from_checkpoint clock s cid)) = []
    \<and> files_failed (snd (recover_from_checkpoint clock s cid)) = []
    \<and> messages (snd (recover_from_checkpoint clock s cid)) =
        ''Checkpoint validation failed'' # issues (validate_checkpoint s cid)"
  using assms by (simp add: recover_from_checkpoint_def Let_def recovery_start_def)

theorem recover_rejects_infeasible_witness:
  "\<not> recovery_feasible (validate_checkpoint ex_fs_missing ''CP001'')
   \<and> fst (recover_from_checkpoint ex_clock ex_fs_missing ''CP001'') = ex_fs_missing
   \<and> \<not> success (snd (recover_from_checkpoint ex_clock ex_fs_missing ''CP001''))
   \<and> \<not> state_restored (snd (recover_from_checkpoint ex_clock ex_fs_missing ''CP001''))
   \<and> messages (snd (recover_from_checkpoint ex_clock ex_fs_missing ''CP001'')) =
        [''Checkpoint validation failed'']"
  using recover_rejects_infeasible[OF ex_missing_verdict(3), of ex_clock] ex_missing_verdict
  by simp

lemma validate_loaded_files:
  assumes "py_get data ''checkpoint'' (JObj []) = Inr (JObj ikvs)"
    and "validate_loaded s data r0 = (None, r)"
  shows "\<exists>full_state files. py_get data ''full_state'' (JObj []) = Inr full_state
          \<and> referenced_files (JObj ikvs) = Inr files"
proof -
  from assms(1) obtain kvs where k: "data = JObj kvs" using py_get_Inr by blast
  from validate_structure_obj[OF assms(1), of r0] obtain r1 where
    st: "validate_structure data r0 = Inr (JObj ikvs, r1)" by blast
  with assms(2) show ?thesis
    by (auto simp: validate_loaded_def k split: sum.splits prod.splits option.splits)
qed

lemma feasible_found:
  assumes "recovery_feasible (validate_checkpoint s cid)"
  shows "\<exists>n f kvs ikvs full_state files.
      find_checkpoint_file s cid = Some (n, f)
      \<and> json_load f = Inr (JObj kvs)
      \<and> py_get (JObj kvs) ''checkpoint'' (JObj []) = Inr (JObj ikvs)
      \<and> py_get (JObj kvs) ''full_state'' (JObj []) = Inr full_state
      \<and> referenced_files (JObj ikvs) = Inr files
      \<and> list_all (path_listed_exists s) files"
proof -
  from assms obtain n f where found: "find_checkpoint_file s cid = Some (n, f)"
    by (cases "find_checkpoint_file s cid")
       (auto simp: validate_checkpoint_def validation_start_def Let_def)
  from validate_found[OF found] obtain kvs ikvs where
    l: "json_load f = Inr (JObj kvs)"
      "py_get (JObj kvs) ''checkpoint'' (JObj []) = Inr (JObj ikvs)"
    and v: "validate_checkpoint s cid =
          (case validate_loaded s (JObj kvs) (validation_start cid) of
             (None, r') \<Rightarrow> r'
           | (Some e, r') \<Rightarrow> r'\<lparr>issues := issues r' @ [''Validation error: '' @ exn_str e]\<rparr>)"
    by blast
  obtain e r where res: "validate_loaded s (JObj kvs) (validation_start cid) = (e, r)"
    by (cases "validate_loaded s (JObj kvs) (validation_start cid)")
  note facts = validate_loaded_facts[OF l(2) refl res]
  from assms facts have e: "e = None" by (cases e) (auto simp: v res)
  with assms facts have ex: "listed_files_exist s (JObj ikvs)" by (auto simp: v res)
  from validate_loaded_files[OF l(2)] res e obtain full_state files where
    ff: "py_get (JObj kvs) ''full_state'' (JObj []) = Inr full_state"
      "referenced_files (JObj ikvs) = Inr files" by blast
  with ex have "list_all (path_listed_exists s) files" by (simp add: listed_files_exist_def)
  with found l ff show ?thesis by blast
qed

lemma recover_feasible_eq:
  assumes "recovery_feasible (validate_checkpoint s cid)"
    and "find_checkpoint_file s cid = Some (n, f)"
    and "json_load f = Inr data"
    and "py_get data ''checkpoint'' (JObj []) = Inr info"
    and "py_get data ''full_state'' (JObj []) = Inr full_state"
    and "referenced_files info = Inr files"
  shows "recover_from_checkpoint clock s cid =
     finish_recovery clock cid
       (restore_files cid files
         (backup_and_restore_state clock s cid full_state (recovery_start clock cid)))"
  using assms
  by (simp add: recover_from_checkpoint_def recover_validated_def Let_def split: prod.splits)

lemma store_path_frame:
  "snapshots (store_path s p f) = snapshots s"
  "backups (store_path s p f) = backups s"
  "checkpoints_dir (store_path s p f) = checkpoints_dir s"
  "recovery_log (store_path s p f) = recovery_log s"
  "log_writable (store_path s p f) = log_writable s"
  "lookup_path (store_path s p f) q = (if q = p then Some f else lookup_path s q)"
  by (auto simp: store_path_def lookup_path_def)

lemma restore_one_frame:
  assumes "restore_one cid x (s, r) = (s', r')"
  shows "snapshots s' = snapshots s \<and> backups s' = backups s
     \<and> checkpoints_dir s' = checkpoints_dir s \<and> recovery_log s' = recovery_log s
     \<and> log_writable s' = log_writable s
     \<and> state_restored r' = state_restored r \<and> success r' = success r
     \<and> backup_created r' = backup_created r
     \<and> set (messages r) \<subseteq> set (messages r')
     \<and> set (files_restored r) \<subseteq> set (files_restored r')
     \<and> set (files_failed r) \<subseteq> set (files_failed r')"
  using assms
  by (cases x) (auto simp: store_path_frame split: option.splits if_splits)

lemma restore_files_frame:
  "restore_files cid xs (s, r) = (s', r') \<Longrightarrow>
     snapshots s' = snapshots s \<and> backups s' = backups s
     \<and> checkpoints_dir s' = checkpoints_dir s \<and> recovery_log s' = recovery_log s
     \<and> log_writable s' = log_writable s
     \<and> state_restored r' = state_restored r \<and> success r' = success r
     \<and> backup_created r' = backup_created r
     \<and> set (messages r) \<subseteq> set (messages r')
     \<and> set (files_restored r) \<subseteq> set (files_restored r')
     \<and> set (files_failed r) \<subseteq> set (files_failed r')"
proof (induction xs arbitrary: s r)
  case Nil
  then show ?case by simp
next
  case (Cons x xs)
  obtain s1 r1 where one: "restore_one cid x (s, r) = (s1, r1)"
    by (cases "restore_one cid x (s, r)")
  with Cons.prems have rest: "restore_files cid xs (s1, r1) = (s', r')" by simp
  from restore_one_frame[OF one] Cons.IH[OF rest] show ?case by auto
qed











lemma create_recovery_backup_frame:
  "create_recovery_backup clock s = (s1, ok) \<Longrightarrow>
     state_file s1 = state_file s \<and> snapshots s1 = snapshots s \<and> project s1 = project s
     \<and> checkpoints_dir s1 = checkpoints_dir s \<and> recovery_log s1 = recovery_log s
     \<and> log_writable s1 = log_writable s"
  by (auto simp: create_recovery_backup_def Let_def split: option.splits if_splits)

lemma write_state_frame:
  "write_state t s j = Inr s' \<Longrightarrow>
     snapshots s' = snapshots s \<and> project s' = project s \<and> backups s' = backups s
     \<and> checkpoints_dir s' = checkpoints_dir s \<and> recovery_log s' = recovery_log s
     \<and> log_writable s' = log_writable s
     \<and> (\<exists>f. state_file s' = Some f \<and> body f = Doc j)"
  by (auto simp: write_state_def split: option.splits if_splits)

lemma backup_and_restore_state_facts:
  assumes "backup_and_restore_state clock s cid full_state (recovery_start clock cid) = (s2, r3)"
  shows "snapshots s2 = snapshots s \<and> project s2 = project s
     \<and> checkpoints_dir s2 = checkpoints_dir s \<and> recovery_log s2 = recovery_log s
     \<and> log_writable s2 = log_writable s
     \<and> files_restored r3 = [] \<and> files_failed r3 = []
     \<and> backup_created r3 = snd (create_recovery_backup clock s)
     \<and> (case restore_progress_state clock (fst (create_recovery_backup clock s)) cid
               (snd (create_recovery_backup clock s)) full_state of
          Inr s2' \<Rightarrow> s2 = s2' \<and> state_restored r3
        | Inl e \<Rightarrow> s2 = fst (create_recovery_backup clock s) \<and> \<not> state_restored r3
             \<and> (''Failed to restore progress state: '' @ exn_str e) \<in> set (messages r3))"
proof -
  obtain s1 ok where b: "create_recovery_backup clock s = (s1, ok)"
    by (cases "create_recovery_backup clock s")
  note bf = create_recovery_backup_frame[OF b]
  show ?thesis
  proof (cases "restore_progress_state clock s1 cid ok full_state")
    case (Inl e)
    with assms b bf show ?thesis
      by (auto simp: backup_and_restore_state_def recovery_start_def Let_def split: if_splits)
  next
    case (Inr s2')
    then obtain st where "write_state (rc_write_mtime clock) s1 st = Inr s2'"
      by (auto simp: restore_progress_state_def ebind_def split: sum.splits)
    from write_state_frame[OF this] Inr assms b bf show ?thesis
      by (auto simp: backup_and_restore_state_def recovery_start_def Let_def split: if_splits)
  qed
qed

lemma finish_recovery_facts:
  assumes "finish_recovery clock cid (s3, r4) = (s4, r6)"
  shows "success r6 = (state_restored r4 \<and> files_failed r4 = [])
     \<and> state_restored r6 = state_restored r4 \<and> files_failed r6 = files_failed r4
     \<and> files_restored r6 = files_restored r4 \<and> backup_created r6 = backup_created r4
     \<and> set (messages r4) \<subseteq> set (messages r6)
     \<and> s4 = log_recovery_operation clock s3 cid r4"
  using assms by (auto simp: finish_recovery_def Let_def split: if_splits)

lemma log_recovery_operation_frame:
  "state_file (log_recovery_operation clock s cid r) = state_file s"
  "project (log_recovery_operation clock s cid r) = project s"
  "lookup_path (log_recovery_operation clock s cid r) p = lookup_path s p"
  "backups (log_recovery_operation clock s cid r) = backups s"
  "checkpoints_dir (log_recovery_operation clock s cid r) = checkpoints_dir s"
  "snapshots (log_recovery_operation clock s cid r) = snapshots s"
  by (simp_all add: log_recovery_operation_def Let_def lookup_path_def)

lemma log_recovery_operation_log:
  "recovery_log (log_recovery_operation clock s cid r) =
     (if log_writable s
      then recovery_log s @ [\<lparr>le_timestamp = rc_log_time clock,
                   le_operation = ''CHECKPOINT_RECOVERY'',
                   le_checkpoint_id = cid,
                   le_success = success r,
                   le_files_restored = length (files_restored r),
                   le_files_failed = length (files_failed r),
                   le_messages = messages r\<rparr>]
      else recovery_log s)"
  by (simp add: log_recovery_operation_def Let_def)


lemma ex_partial_run:
  "recovery_feasible (validate_checkpoint ex_fs_partial ''CP002'')"
  "\<not> state_restored (snd (recover_from_checkpoint ex_clock ex_fs_partial ''CP002''))"
  "files_failed (snd (recover_from_checkpoint ex_clock ex_fs_partial ''CP002'')) = [JStr ''a.py'']"
  "files_restored (snd (recover_from_checkpoint ex_clock ex_fs_partial ''CP002'')) = [''b.py'']"
  "lookup_path (fst (recover_from_checkpoint ex_clock ex_fs_partial ''CP002'')) ''b.py''
     = Some (plain_file (Raw ''old b''))"
  "log_writable ex_fs_partial"
  "recovery_log ex_fs_partial = []"
  by code_simp+


text \<open>
  Claim C5, as the code has it. A call for a checkpoint that passes validation appends
  exactly one entry to the recovery log when the log can be opened for appending (a
  failure to write it is swallowed); a call that the validation gate rejects returns
  before the logging step and appends nothing.
\<close>

theorem recovery_log_appended:
  "(recovery_feasible (validate_checkpoint s cid) \<and> log_writable s \<longrightarrow>
      (\<exists>e. recovery_log (fst (recover_from_checkpoint clock s cid)) = recovery_log s @ [e]
         \<and> le_checkpoint_id e = cid \<and> le_operation e = ''CHECKPOINT_RECOVERY''
         \<and> le_timestamp e = rc_log_time clock))
   \<and> (\<not> (recovery_feasible (validate_checkpoint s cid) \<and> log_writable s) \<longrightarrow>
        recovery_log (fst (recover_from_checkpoint clock s cid)) = recovery_log s)"
proof (cases "recovery_feasible (validate_checkpoint s cid)")
  case False
  then show ?thesis by (simp add: recover_from_checkpoint_def Let_def)
next
  case True
  from feasible_found[OF True] obtain n f kvs ikvs full_state files where
    l: "find_checkpoint_file s cid = Some (n, f)" "json_load f = Inr (JObj kvs)"
      "py_get (JObj kvs) ''checkpoint'' (JObj []) = Inr (JObj ikvs)"
      "py_get (JObj kvs) ''full_state'' (JObj []) = Inr full_state"
      "referenced_files (JObj ikvs) = Inr files"
    by blast
  obtain s2 r3 where br: "backup_and_restore_state clock s cid full_state (recovery_start clock cid) = (s2, r3)"
    by (cases "backup_and_restore_state clock s cid full_state (recovery_start clock cid)")
  obtain s3 r4 where rf: "restore_files cid files (s2, r3) = (s3, r4)"
    by (cases "restore_files cid files (s2, r3)")
  obtain s4 r6 where fin: "finish_recovery clock cid (s3, r4) = (s4, r6)"
    by (cases "finish_recovery clock cid (s3, r4)")
  from recover_feasible_eq[OF True l, of clock] br rf fin
  have eq: "recover_from_checkpoint clock s cid = (s4, r6)" by simp
  note B = backup_and_restore_state_facts[OF br]
  note F = restore_files_frame[OF rf]
  note N = finish_recovery_facts[OF fin]
  from B F N have "recovery_log s4 =
     (if log_writable s
      then recovery_log s @ [\<lparr>le_timestamp = rc_log_time clock,
                   le_operation = ''CHECKPOINT_RECOVERY'',
                   le_checkpoint_id = cid,
                   le_success = success r4,
                   le_files_restored = length (files_restored r4),
                   le_files_failed = length (files_failed r4),
                   le_messages = messages r4\<rparr>]
      else recovery_log s)"
    by (simp add: log_recovery_operation_log)
  with True show ?thesis by (simp add: eq)
qed

theorem recovery_log_appended_witness:
  "recovery_feasible (validate_checkpoint ex_fs_partial ''CP002'')
   \<and> log_writable ex_fs_partial
   \<and> length (recovery_log (fst (recover_from_checkpoint ex_clock ex_fs_partial ''CP002''))) = 1
   \<and> le_checkpoint_id (last (recovery_log (fst (recover_from_checkpoint ex_clock ex_fs_partial ''CP002''))))
       = ''CP002''"
proof -
  from recovery_log_appended[of ex_fs_partial "''CP002''" ex_clock] ex_partial_run(1,6)
  obtain e where
    "recovery_log (fst (recover_from_checkpoint ex_clock ex_fs_partial ''CP002''))
       = recovery_log ex_fs_partial @ [e]"
    "le_checkpoint_id e = ''CP002''"
    by blast
  with ex_partial_run(1,6,7) show ?thesis by simp
qed

theorem recovery_log_rejected_counterexample:
  "log_writable ex_fs_missing
   \<and> recovery_log (fst (recover_from_checkpoint ex_clock ex_fs_missing ''CP001''))
       = recovery_log ex_fs_missing"
  by code_simp

lemma map_of_dict_set: "map_of (dict_set kvs k v) k' = (if k' = k then Some v else map_of kvs k')"
  by (induction kvs) auto

lemma py_setitem2_Inr:
  assumes "py_setitem2 x k1 k2 v = Inr x'"
  shows "\<exists>kvs ikvs. x = JObj kvs \<and> map_of kvs k1 = Some (JObj ikvs)
           \<and> x' = JObj (dict_set kvs k1 (JObj (dict_set ikvs k2 v)))"
proof -
  from assms obtain inner where i: "py_getitem x k1 = Inr inner"
    by (auto simp: py_setitem2_def ebind_def split: sum.splits)
  then obtain kvs where k: "x = JObj kvs" "map_of kvs k1 = Some inner"
    by (cases x) (auto split: option.splits)
  from assms i obtain inner' where i': "py_setitem inner k2 v = Inr inner'"
    by (auto simp: py_setitem2_def ebind_def split: sum.splits)
  then obtain ikvs where ik: "inner = JObj ikvs" "inner' = JObj (dict_set ikvs k2 v)"
    by (cases inner) auto
  from assms i i' k ik show ?thesis by (auto simp: py_setitem2_def ebind_def)
qed

lemma py_setitem2_fields:
  assumes "py_setitem2 x k1 k2 v = Inr x'"
  shows "py_getitem x' k = (if k = k1 then py_getitem x' k1 else py_getitem x k)"
    and "field2 x' k1' k2' = (if k1' = k1 \<and> k2' = k2 then Inr v else field2 x k1' k2')"
    and "py_get x' k d = (if k = k1 then py_get x' k1 d else py_get x k d)"
proof -
  from py_setitem2_Inr[OF assms] obtain kvs ikvs where
    x: "x = JObj kvs" "map_of kvs k1 = Some (JObj ikvs)"
      "x' = JObj (dict_set kvs k1 (JObj (dict_set ikvs k2 v)))" by blast
  show "py_getitem x' k = (if k = k1 then py_getitem x' k1 else py_getitem x k)"
    by (simp add: x map_of_dict_set)
  show "field2 x' k1' k2' = (if k1' = k1 \<and> k2' = k2 then Inr v else field2 x k1' k2')"
    by (simp add: x map_of_dict_set field2_def ebind_def)
  show "py_get x' k d = (if k = k1 then py_get x' k1 d else py_get x k d)"
    by (simp add: x map_of_dict_set)
qed

lemma py_setitem2_get2:
  assumes "py_setitem2 x k1 k2 v = Inr x'"
  shows "ebind (py_get x' k1' d1) (\<lambda>m. py_get m k2' d2) =
     (if k1' = k1 \<and> k2' = k2 then Inr v else ebind (py_get x k1' d1) (\<lambda>m. py_get m k2' d2))"
proof -
  from py_setitem2_Inr[OF assms] obtain kvs ikvs where
    x: "x = JObj kvs" "map_of kvs k1 = Some (JObj ikvs)"
      "x' = JObj (dict_set kvs k1 (JObj (dict_set ikvs k2 v)))" by blast
  show ?thesis by (simp add: x map_of_dict_set ebind_def)
qed

lemma py_setitem_obj_fields:
  assumes "py_setitem x k1 v = Inr x'"
  shows "py_get x' k d = (if k = k1 then Inr v else py_get x k d)"
    and "py_getitem x' k = (if k = k1 then Inr v else py_getitem x k)"
    and "field2 x' k k2 = (if k = k1 then py_getitem v k2 else field2 x k k2)"
proof -
  from assms obtain kvs where x: "x = JObj kvs" "x' = JObj (dict_set kvs k1 v)"
    by (cases x) auto
  show "py_get x' k d = (if k = k1 then Inr v else py_get x k d)"
    by (simp add: x map_of_dict_set)
  show "py_getitem x' k = (if k = k1 then Inr v else py_getitem x k)"
    by (simp add: x map_of_dict_set)
  show "field2 x' k k2 = (if k = k1 then py_getitem v k2 else field2 x k k2)"
    by (simp add: x map_of_dict_set field2_def ebind_def)
qed

text \<open>What the stamping leaves alone.\<close>

lemma stamp_state_keeps:
  assumes "stamp_state clock cid ok R = Inr st"
  shows "record_phase st = record_phase R"
    and "record_task st = record_task R"
    and "record_progress st = record_progress R"
    and "k \<notin> {''metadata'', ''current_session'', ''recovery_history''} \<Longrightarrow>
           py_getitem st k = py_getitem R k"
    and "k \<noteq> ''last_updated'' \<Longrightarrow> field2 st ''metadata'' k = field2 R ''metadata'' k"
    and "k \<notin> {''session_id'', ''last_activity''} \<Longrightarrow>
           field2 st ''current_session'' k = field2 R ''current_session'' k"
proof -
  from assms obtain st1 where 1: "py_setitem2 R ''metadata'' ''last_updated'' (JStr (rc_last_updated clock)) = Inr st1"
    by (auto simp: stamp_state_def ebind_def split: sum.splits)
  from assms 1 obtain st2 where 2: "py_setitem2 st1 ''current_session'' ''session_id''
              (JStr (''recovery_'' @ rc_session_stamp clock)) = Inr st2"
    by (auto simp: stamp_state_def ebind_def split: sum.splits)
  from assms 1 2 obtain st3 where 3: "py_setitem2 st2 ''current_session'' ''last_activity''
              (JStr (rc_last_activity clock)) = Inr st3"
    by (auto simp: stamp_state_def ebind_def split: sum.splits)
  from assms 1 2 3 obtain present where 4: "py_contains ''recovery_history'' st3 = Inr present"
    by (auto simp: stamp_state_def ebind_def split: sum.splits)
  from assms 1 2 3 4 obtain st4 where 5:
    "(if present then Inr st3 else py_setitem st3 ''recovery_history'' (JArr [])) = Inr st4"
    by (auto simp: stamp_state_def ebind_def split: sum.splits)
  from assms 1 2 3 4 5 obtain history where 6: "py_getitem st4 ''recovery_history'' = Inr history"
    by (auto simp: stamp_state_def ebind_def split: sum.splits if_splits)
  from assms 1 2 3 4 5 6 obtain history' where 7:
    "py_append history (recovery_history_entry cid (rc_recovery_time clock) ok) = Inr history'"
    by (auto simp: stamp_state_def ebind_def split: sum.splits if_splits)
  from assms 1 2 3 4 5 6 7 have 8: "py_setitem st4 ''recovery_history'' history' = Inr st"
    by (auto simp: stamp_state_def ebind_def split: sum.splits if_splits)
  note a = py_setitem2_fields[OF 1] py_setitem2_get2[OF 1]
  note b = py_setitem2_fields[OF 2] py_setitem2_get2[OF 2]
  note c = py_setitem2_fields[OF 3] py_setitem2_get2[OF 3]
  note e = py_setitem_obj_fields[OF 8]
  have d_get: "py_get st4 k d = (if k = ''recovery_history'' then py_get st4 k d else py_get st3 k d)" for k d
    using 5 py_setitem_obj_fields(1)[of st3 "''recovery_history''" "JArr []" st4 k d]
    by (cases present) auto
  have d_item: "py_getitem st4 k = (if k = ''recovery_history'' then py_getitem st4 k else py_getitem st3 k)" for k
    using 5 py_setitem_obj_fields(2)[of st3 "''recovery_history''" "JArr []" st4 k]
    by (cases present) auto
  have d_f2: "k1 \<noteq> ''recovery_history'' \<Longrightarrow> field2 st4 k1 k2 = field2 st3 k1 k2" for k1 k2
    using 5 py_setitem_obj_fields(3)[of st3 "''recovery_history''" "JArr []" st4 k1 k2]
    by (cases present) auto
  show "record_phase st = record_phase R"
    unfolding record_phase_def
    by (simp add: e(1) d_get[of "''metadata''"] c(3)[of "''metadata''"] b(3)[of "''metadata''"] a(4))
  show "record_progress st = record_progress R"
    unfolding record_progress_def
    by (simp add: e(1) d_get[of "''metadata''"] c(3)[of "''metadata''"] b(3)[of "''metadata''"] a(4))
  show "record_task st = record_task R"
    unfolding record_task_def
    by (simp add: e(1) d_get[of "''current_session''"] c(4) b(4) a(3)[of "''current_session''"])
  show "py_getitem st k = py_getitem R k"
    if "k \<notin> {''metadata'', ''current_session'', ''recovery_history''}"
    using that by (simp add: e(2) d_item[of k] c(1)[of k] b(1)[of k] a(1)[of k])
  show "field2 st ''metadata'' k = field2 R ''metadata'' k" if "k \<noteq> ''last_updated''"
    using that by (simp add: e(3) d_f2 c(2) b(2) a(2))
  show "field2 st ''current_session'' k = field2 R ''current_session'' k"
    if "k \<notin> {''session_id'', ''last_activity''}"
    using that by (simp add: e(3) d_f2 c(2) b(2) a(2))
qed

lemma is_jobj_iff: "is_jobj x = (\<exists>kvs. x = JObj kvs)"
  by (cases x) simp_all

lemma is_jarr_iff: "is_jarr x = (\<exists>xs. x = JArr xs)"
  by (cases x) simp_all

lemma stamp_state_well_formed:
  assumes "well_formed_record R"
  shows "\<exists>st. stamp_state clock cid ok R = Inr st"
proof -
  from assms obtain kvs where R: "R = JObj kvs"
    by (cases R) (simp_all add: well_formed_record_def)
  from assms R obtain m where m: "map_of kvs ''metadata'' = Some (JObj m)"
    by (auto simp: well_formed_record_def is_jobj_iff split: option.splits)
  from assms R obtain c where c: "map_of kvs ''current_session'' = Some (JObj c)"
    by (auto simp: well_formed_record_def is_jobj_iff split: option.splits)
  from assms R have h: "map_of kvs ''recovery_history'' = None
      \<or> (\<exists>h. map_of kvs ''recovery_history'' = Some (JArr h))"
    by (auto simp: well_formed_record_def is_jarr_iff split: option.splits)
  from h show ?thesis
    by (auto simp: stamp_state_def R m c py_setitem2_def ebind_def map_of_dict_set)
qed

lemma restore_one_state_file:
  "restore_one cid x (s, r) = (s', r') \<Longrightarrow> snapshots s cid state_path = None \<Longrightarrow>
     state_file s' = state_file s"
  by (cases x) (auto simp: store_path_def split: option.splits if_splits)

lemma restore_files_state_file:
  "restore_files cid xs (s, r) = (s', r') \<Longrightarrow> snapshots s cid state_path = None \<Longrightarrow>
     state_file s' = state_file s"
proof (induction xs arbitrary: s r)
  case Nil
  then show ?case by simp
next
  case (Cons x xs)
  obtain s1 r1 where one: "restore_one cid x (s, r) = (s1, r1)"
    by (cases "restore_one cid x (s, r)")
  with Cons.prems have rest: "restore_files cid xs (s1, r1) = (s', r')" by simp
  from restore_one_frame[OF one] Cons.prems have "snapshots s1 cid state_path = None" by simp
  from Cons.IH[OF rest this] restore_one_state_file[OF one Cons.prems(2)] show ?case by simp
qed

lemma auto_checkpoint_data_full_state:
  "py_get (auto_checkpoint_data dclock checkpoint R) ''full_state'' d = Inr R"
  "py_get (auto_checkpoint_data dclock checkpoint R) ''checkpoint'' d = Inr checkpoint"
  by (simp_all add: auto_checkpoint_data_def)

text \<open>
  Claim C8. Let the file that the lookup of \<open>cid\<close> finds hold the document that
  \<open>_create_auto_checkpoint\<close> wrote for the ProgressRecord \<open>R\<close>, let the checkpoint pass
  validation, and let no snapshot of the ProgressRecord itself be stored under it. When
  the call reports \<open>state_restored\<close>, the live ProgressRecord is \<open>R\<close> as stamped: phase,
  active task and progress percentage read as they do on \<open>R\<close>, and outside the
  \<open>last_updated\<close>, \<open>session_id\<close>, \<open>last_activity\<close> and \<open>recovery_history\<close> entries every
  field is that of \<open>R\<close>. The state is restored whenever \<open>R\<close> has object-valued metadata
  and current-session sections, a recovery history that is absent or a list, and the
  ProgressRecord file can be written.
\<close>

theorem recover_round_trip:
  assumes found: "find_checkpoint_file s cid = Some (n, f)"
    and captured: "json_load f = Inr (auto_checkpoint_data dclock checkpoint R)"
    and feasible: "recovery_feasible (validate_checkpoint s cid)"
    and no_alias: "snapshots s cid state_path = None"
  shows "(state_restored (snd (recover_from_checkpoint clock s cid)) \<longrightarrow>
           (\<exists>f' st. state_file (fst (recover_from_checkpoint clock s cid)) = Some f'
              \<and> body f' = Doc st
              \<and> stamp_state clock cid
                   (backup_created (snd (recover_from_checkpoint clock s cid))) R = Inr st
              \<and> record_phase st = record_phase R
              \<and> record_task st = record_task R
              \<and> record_progress st = record_progress R
              \<and> (\<forall>k. k \<notin> {''metadata'', ''current_session'', ''recovery_history''} \<longrightarrow>
                     py_getitem st k = py_getitem R k)
              \<and> (\<forall>k. k \<noteq> ''last_updated'' \<longrightarrow>
                     field2 st ''metadata'' k = field2 R ''metadata'' k)
              \<and> (\<forall>k. k \<notin> {''session_id'', ''last_activity''} \<longrightarrow>
                     field2 st ''current_session'' k = field2 R ''current_session'' k)))
     \<and> (well_formed_record R \<and> state_writable s \<longrightarrow>
           state_restored (snd (recover_from_checkpoint clock s cid)))"
proof -
  from feasible_found[OF feasible] obtain n' f' kvs ikvs files where
    l: "find_checkpoint_file s cid = Some (n', f')" "json_load f' = Inr (JObj kvs)"
      "py_get (JObj kvs) ''checkpoint'' (JObj []) = Inr (JObj ikvs)"
      "referenced_files (JObj ikvs) = Inr files"
    by blast
  from l(1,2) found captured have "auto_checkpoint_data dclock checkpoint R = JObj kvs" by simp
  with l(3) auto_checkpoint_data_full_state(2)[of dclock checkpoint R "JObj []"]
  have "checkpoint = JObj ikvs" by simp
  with l(4) have files: "referenced_files checkpoint = Inr files" by simp
  obtain s1 ok where b: "create_recovery_backup clock s = (s1, ok)"
    by (cases "create_recovery_backup clock s")
  obtain s2 r3 where br: "backup_and_restore_state clock s cid R (recovery_start clock cid) = (s2, r3)"
    by (cases "backup_and_restore_state clock s cid R (recovery_start clock cid)")
  obtain s3 r4 where rf: "restore_files cid files (s2, r3) = (s3, r4)"
    by (cases "restore_files cid files (s2, r3)")
  obtain s4 r6 where fin: "finish_recovery clock cid (s3, r4) = (s4, r6)"
    by (cases "finish_recovery clock cid (s3, r4)")
  from recover_feasible_eq[OF feasible found captured
      auto_checkpoint_data_full_state(2) auto_checkpoint_data_full_state(1) files, of clock]
    br rf fin
  have eq: "recover_from_checkpoint clock s cid = (s4, r6)" by simp
  note B = backup_and_restore_state_facts[OF br, unfolded b fst_conv snd_conv]
  note F = restore_files_frame[OF rf]
  note N = finish_recovery_facts[OF fin]
  note bf = create_recovery_backup_frame[OF b]
  from B no_alias have na: "snapshots s2 cid state_path = None" by simp
  have sf: "state_file s4 = state_file s2"
    using restore_files_state_file[OF rf na] N by (simp add: log_recovery_operation_frame)
  have bc: "backup_created r6 = ok" using B F N by simp
  have sr: "state_restored r6 = state_restored r3" using F N by simp
  have part1: "\<exists>f' st. state_file s4 = Some f' \<and> body f' = Doc st
              \<and> stamp_state clock cid ok R = Inr st
              \<and> record_phase st = record_phase R
              \<and> record_task st = record_task R
              \<and> record_progress st = record_progress R
              \<and> (\<forall>k. k \<notin> {''metadata'', ''current_session'', ''recovery_history''} \<longrightarrow>
                     py_getitem st k = py_getitem R k)
              \<and> (\<forall>k. k \<noteq> ''last_updated'' \<longrightarrow>
                     field2 st ''metadata'' k = field2 R ''metadata'' k)
              \<and> (\<forall>k. k \<notin> {''session_id'', ''last_activity''} \<longrightarrow>
                     field2 st ''current_session'' k = field2 R ''current_session'' k)"
    if restored: "state_restored r6"
  proof -
    from restored sr B obtain s2' where rs: "restore_progress_state clock s1 cid ok R = Inr s2'"
      and s2: "s2 = s2'"
      by (cases "restore_progress_state clock s1 cid ok R") auto
    from rs obtain st where st: "stamp_state clock cid ok R = Inr st"
      and w: "write_state (rc_write_mtime clock) s1 st = Inr s2'"
      by (auto simp: restore_progress_state_def ebind_def split: sum.splits)
    from write_state_frame[OF w] s2 sf obtain f' where
      f': "state_file s4 = Some f'" "body f' = Doc st" by auto
    from stamp_state_keeps[OF st] f' st show ?thesis by blast
  qed
  have part2: "state_restored r6" if wf: "well_formed_record R" and sw: "state_writable s"
  proof -
    from stamp_state_well_formed[OF wf] obtain st where
      st: "stamp_state clock cid ok R = Inr st" by blast
    from sw bf have "\<exists>s2'. write_state (rc_write_mtime clock) s1 st = Inr s2'"
      by (auto simp: write_state_def state_writable_def split: option.splits)
    with st have "\<exists>s2'. restore_progress_state clock s1 cid ok R = Inr s2'"
      by (simp add: restore_progress_state_def ebind_def)
    with B sr show ?thesis by auto
  qed
  from part1 part2 show ?thesis
    unfolding eq fst_conv snd_conv bc by blast
qed

lemma ex_created_facts:
  "find_checkpoint_file ex_fs_created ''AUTO_CP001'' =
     Some (''AUTO_CP001_20250101_1030_time_based.json'',
           \<lparr>readable = True, writable = True, mtime = 1800,
            body = Doc (auto_checkpoint_data ex_dclock ex_auto_info ex_state)\<rparr>)"
  "json_load \<lparr>readable = True, writable = True, mtime = 1800,
            body = Doc (auto_checkpoint_data ex_dclock ex_auto_info ex_state)\<rparr>
     = Inr (auto_checkpoint_data ex_dclock ex_auto_info ex_state)"
  "recovery_feasible (validate_checkpoint ex_fs_created ''AUTO_CP001'')"
  "snapshots ex_fs_created ''AUTO_CP001'' state_path = None"
  "well_formed_record ex_state"
  "state_writable ex_fs_created"
  "record_phase ex_state = Inr (JNum 2)"
  "record_task ex_state = Inr (JStr ''P2.1.1'')"
  "record_progress ex_state = Inr (JNum 40)"
  "state_file ex_fs_created \<noteq> Some (plain_file (Doc ex_state))"
  by code_simp+

theorem recover_round_trip_witness:
  "recovery_feasible (validate_checkpoint ex_fs_created ''AUTO_CP001'')
   \<and> state_file ex_fs_created \<noteq> Some (plain_file (Doc ex_state))
   \<and> state_restored (snd (recover_from_checkpoint ex_clock ex_fs_created ''AUTO_CP001''))
   \<and> (\<exists>f' st. state_file (fst (recover_from_checkpoint ex_clock ex_fs_created ''AUTO_CP001''))
                  = Some f'
        \<and> body f' = Doc st
        \<and> record_phase st = Inr (JNum 2)
        \<and> record_task st = Inr (JStr ''P2.1.1'')
        \<and> record_progress st = Inr (JNum 40))"
proof -
  note rt = recover_round_trip[OF ex_created_facts(1) ex_created_facts(2) ex_created_facts(3)
      ex_created_facts(4), of ex_clock]
  have restored: "state_restored (snd (recover_from_checkpoint ex_clock ex_fs_created ''AUTO_CP001''))"
    by (rule mp[OF conjunct2[OF rt] conjI[OF ex_created_facts(5) ex_created_facts(6)]])
  from mp[OF conjunct1[OF rt] restored] obtain f' st where st:
    "state_file (fst (recover_from_checkpoint ex_clock ex_fs_created ''AUTO_CP001'')) = Some f'"
    "body f' = Doc st"
    "record_phase st = record_phase ex_state"
    "record_task st = record_task ex_state"
    "record_progress st = record_progress ex_state"
    by (elim exE conjE) (rule that, assumption+)
  have "\<exists>f' st. state_file (fst (recover_from_checkpoint ex_clock ex_fs_created ''AUTO_CP001''))
                  = Some f'
        \<and> body f' = Doc st
        \<and> record_phase st = Inr (JNum 2)
        \<and> record_task st = Inr (JStr ''P2.1.1'')
        \<and> record_progress st = Inr (JNum 40)"
    apply (rule exI[where x = f'], rule exI[where x = st])
    using st(3,4,5) unfolding ex_created_facts(7,8,9)
    by (intro conjI st(1) st(2))
  with restored ex_created_facts(3) ex_created_facts(10) show ?thesis
    by (intro conjI)
qed

lemma auto_checkpoint_info_hash:
  "auto_checkpoint_info (d\<lparr>last_state_hash := h\<rparr>) = auto_checkpoint_info d"
  by (simp add: auto_checkpoint_info_def fun_eq_iff)

lemma cleanup_old_checkpoints_hash:
  "cleanup_old_checkpoints (d\<lparr>last_state_hash := h\<rparr>) = cleanup_old_checkpoints d"
  by (simp add: cleanup_old_checkpoints_def fun_eq_iff Let_def)

lemma create_auto_checkpoint_hash:
  "create_auto_checkpoint (d\<lparr>last_state_hash := h\<rparr>) clock s reason
     = create_auto_checkpoint d clock s reason"
  by (simp add: create_auto_checkpoint_def auto_checkpoint_info_hash cleanup_old_checkpoints_hash
      cong: option.case_cong sum.case_cong)

lemma state_changed_frame:
  "state_changed d s = (b, d') \<Longrightarrow> d' = d\<lparr>last_state_hash := last_state_hash d'\<rparr>"
  by (auto simp: state_changed_def split: option.splits if_splits)

lemma write_checkpoint_file_length:
  "write_checkpoint_file dir name t j = Inr dir' \<Longrightarrow> length dir' \<le> length dir + 1"
  by (induction dir arbitrary: dir') (auto simp: ebind_def split: if_splits sum.splits)

lemma cleanup_old_checkpoints_length:
  "length (cleanup_old_checkpoints d dir) \<le> length dir"
  by (simp add: cleanup_old_checkpoints_def Let_def)

lemma create_auto_checkpoint_length:
  "length (checkpoints_dir (create_auto_checkpoint d clock s reason))
     \<le> length (checkpoints_dir s) + 1"
proof -
  have w: "write_state t s1 j = Inr s2 \<Longrightarrow> checkpoints_dir s2 = checkpoints_dir s1" for t s1 j s2
    by (auto simp: write_state_def split: option.splits if_splits)
  show ?thesis
    unfolding create_auto_checkpoint_def Let_def
    apply (auto split: option.splits sum.splits dest!: write_checkpoint_file_length w)
    using cleanup_old_checkpoints_length le_trans by blast
qed

lemma checkpoint_cycle_cases:
  "checkpoint_cycle d now clock s =
     (if now - last_checkpoint_time d \<ge> checkpoint_interval d
      then (d\<lparr>last_checkpoint_time := now, file_change_count := 0\<rparr>,
            create_auto_checkpoint d clock s TIME_BASED, Some TIME_BASED)
      else if file_change_count d \<ge> activity_threshold d
      then (d\<lparr>last_checkpoint_time := now, file_change_count := 0\<rparr>,
            create_auto_checkpoint d clock s ACTIVITY_BASED, Some ACTIVITY_BASED)
      else if fst (state_changed d s)
      then ((snd (state_changed d s))\<lparr>last_checkpoint_time := now, file_change_count := 0\<rparr>,
            create_auto_checkpoint d clock s STATE_CHANGE, Some STATE_CHANGE)
      else (snd (state_changed d s), s, None))"
proof -
  obtain b d1 where sc: "state_changed d s = (b, d1)" by (cases "state_changed d s")
  from state_changed_frame[OF sc]
  have "create_auto_checkpoint d1 clock s STATE_CHANGE = create_auto_checkpoint d clock s STATE_CHANGE"
    using create_auto_checkpoint_hash[where d = d and h = "last_state_hash d1"] by simp
  then show ?thesis
    by (cases b) (simp_all add: checkpoint_cycle_def checkpoint_decision_def fire_checkpoint_def
        Let_def sc)
qed

lemma state_changed_fields:
  "last_checkpoint_time (snd (state_changed d s)) = last_checkpoint_time d"
  "file_change_count (snd (state_changed d s)) = file_change_count d"
  "checkpoint_interval (snd (state_changed d s)) = checkpoint_interval d"
  "activity_threshold (snd (state_changed d s)) = activity_threshold d"
  "max_checkpoints (snd (state_changed d s)) = max_checkpoints d"
  by (simp_all add: state_changed_def split: option.splits)

text \<open>
  Claim C6. One cycle of the decision loop chooses at most one reason, in the order
  TIME\_BASED (the time since the last checkpoint has reached the interval), then
  ACTIVITY\_BASED (the change counter has reached the threshold), then STATE\_CHANGE
  (\<open>_state_changed\<close> reports a change). When a reason is chosen the creation routine
  runs once with it, so the checkpoint directory grows by at most one file, and
  \<open>last_checkpoint_time\<close> becomes the time of the cycle and the change counter 0;
  otherwise nothing is written and both keep their values. A cycle at
  \<open>last_checkpoint_time + checkpoint_interval\<close> fires TIME\_BASED, and no later cycle fires
  TIME\_BASED before another full interval has passed.
\<close>

theorem checkpoint_cycle_fires_once:
  "snd (snd (checkpoint_cycle d now clock s)) =
      (if now - last_checkpoint_time d \<ge> checkpoint_interval d then Some TIME_BASED
       else if file_change_count d \<ge> activity_threshold d then Some ACTIVITY_BASED
       else if fst (state_changed d s) then Some STATE_CHANGE
       else None)
   \<and> (case snd (snd (checkpoint_cycle d now clock s)) of
         Some reason \<Rightarrow>
           fst (snd (checkpoint_cycle d now clock s)) = create_auto_checkpoint d clock s reason
           \<and> last_checkpoint_time (fst (checkpoint_cycle d now clock s)) = now
           \<and> file_change_count (fst (checkpoint_cycle d now clock s)) = 0
       | None \<Rightarrow>
           fst (snd (checkpoint_cycle d now clock s)) = s
           \<and> last_checkpoint_time (fst (checkpoint_cycle d now clock s)) = last_checkpoint_time d
           \<and> file_change_count (fst (checkpoint_cycle d now clock s)) = file_change_count d)
   \<and> length (checkpoints_dir (fst (snd (checkpoint_cycle d now clock s))))
        \<le> length (checkpoints_dir s) + 1
   \<and> checkpoint_interval (fst (checkpoint_cycle d now clock s)) = checkpoint_interval d
   \<and> (now = last_checkpoint_time d + checkpoint_interval d \<longrightarrow>
         snd (snd (checkpoint_cycle d now clock s)) = Some TIME_BASED
         \<and> (\<forall>now2 clock2. now2 - now < checkpoint_interval d \<longrightarrow>
               snd (snd (checkpoint_cycle (fst (checkpoint_cycle d now clock s)) now2 clock2
                           (fst (snd (checkpoint_cycle d now clock s)))))
                 \<noteq> Some TIME_BASED))"
proof -
  have len: "length (checkpoints_dir (fst (snd (checkpoint_cycle d now clock s))))
        \<le> length (checkpoints_dir s) + 1"
    using create_auto_checkpoint_length[of d clock s]
    by (simp add: checkpoint_cycle_cases)
  have interval: "checkpoint_interval (fst (checkpoint_cycle d now clock s)) = checkpoint_interval d"
    by (simp add: checkpoint_cycle_cases state_changed_fields)
  have fired: "snd (snd (checkpoint_cycle d now clock s)) =
      (if now - last_checkpoint_time d \<ge> checkpoint_interval d then Some TIME_BASED
       else if file_change_count d \<ge> activity_threshold d then Some ACTIVITY_BASED
       else if fst (state_changed d s) then Some STATE_CHANGE
       else None)"
    by (simp add: checkpoint_cycle_cases)
  have effect: "(case snd (snd (checkpoint_cycle d now clock s)) of
         Some reason \<Rightarrow>
           fst (snd (checkpoint_cycle d now clock s)) = create_auto_checkpoint d clock s reason
           \<and> last_checkpoint_time (fst (checkpoint_cycle d now clock s)) = now
           \<and> file_change_count (fst (checkpoint_cycle d now clock s)) = 0
       | None \<Rightarrow>
           fst (snd (checkpoint_cycle d now clock s)) = s
           \<and> last_checkpoint_time (fst (checkpoint_cycle d now clock s)) = last_checkpoint_time d
           \<and> file_change_count (fst (checkpoint_cycle d now clock s)) = file_change_count d)"
    by (simp add: checkpoint_cycle_cases state_changed_fields)
  have scenario: "snd (snd (checkpoint_cycle d now clock s)) = Some TIME_BASED
         \<and> (\<forall>now2 clock2. now2 - now < checkpoint_interval d \<longrightarrow>
               snd (snd (checkpoint_cycle (fst (checkpoint_cycle d now clock s)) now2 clock2
                           (fst (snd (checkpoint_cycle d now clock s)))))
                 \<noteq> Some TIME_BASED)"
    if "now = last_checkpoint_time d + checkpoint_interval d"
  proof -
    from that have c: "checkpoint_cycle d now clock s =
        (d\<lparr>last_checkpoint_time := now, file_change_count := 0\<rparr>,
            create_auto_checkpoint d clock s TIME_BASED, Some TIME_BASED)"
      by (simp add: checkpoint_cycle_cases)
    show ?thesis
      unfolding c by (simp add: checkpoint_cycle_cases)
  qed
  from fired effect len interval scenario show ?thesis by blast
qed

lemma ex_cycle_facts:
  "(1800::int) = last_checkpoint_time ex_daemon + checkpoint_interval ex_daemon"
  "(1860::int) - 1800 < checkpoint_interval ex_daemon"
  "file_change_count ex_daemon = 0"
  by (simp_all add: ex_daemon_def)

theorem checkpoint_cycle_fires_once_witness:
  "(1800::int) = last_checkpoint_time ex_daemon + checkpoint_interval ex_daemon
   \<and> file_change_count ex_daemon = 0
   \<and> snd (snd (checkpoint_cycle ex_daemon 1800 ex_dclock ex_fs_live)) = Some TIME_BASED
   \<and> snd (snd (checkpoint_cycle (fst (checkpoint_cycle ex_daemon 1800 ex_dclock ex_fs_live)) 1860
                   ex_dclock_later (fst (snd (checkpoint_cycle ex_daemon 1800 ex_dclock ex_fs_live)))))
        \<noteq> Some TIME_BASED"
proof -
  note t = checkpoint_cycle_fires_once[of ex_daemon 1800 ex_dclock ex_fs_live]
  note sc = mp[OF conjunct2[OF conjunct2[OF conjunct2[OF conjunct2[OF t]]]] ex_cycle_facts(1)]
  have 1: "snd (snd (checkpoint_cycle ex_daemon 1800 ex_dclock ex_fs_live)) = Some TIME_BASED"
    by (rule conjunct1[OF sc])
  have 2: "snd (snd (checkpoint_cycle (fst (checkpoint_cycle ex_daemon 1800 ex_dclock ex_fs_live)) 1860
                   ex_dclock_later (fst (snd (checkpoint_cycle ex_daemon 1800 ex_dclock ex_fs_live)))))
        \<noteq> Some TIME_BASED"
    by (rule mp[OF spec[OF spec[OF conjunct2[OF sc]]] ex_cycle_facts(2)])
  show ?thesis
    by (intro conjI ex_cycle_facts(1) ex_cycle_facts(3) 1 2)
qed

lemma digit_value_digit_char: "d < 10 \<Longrightarrow> digit_value (digit_char d) = d"
  by (simp add: digit_value_def digit_char_def)

lemma decimal_value_snoc: "decimal_value (s @ [c]) = 10 * decimal_value s + digit_value c"
  by (simp add: decimal_value_def)

lemma decimal_value_decimal: "decimal_value (decimal n) = n"
proof (induction n rule: decimal.induct)
  case (1 n)
  show ?case
  proof (cases "n < 10")
    case True
    then show ?thesis
      by (subst decimal.simps) (simp add: decimal_value_def digit_value_digit_char)
  next
    case False
    with 1 have "decimal_value (decimal (n div 10)) = n div 10" by simp
    with False show ?thesis
      by (subst decimal.simps) (simp add: decimal_value_snoc digit_value_digit_char)
  qed
qed

lemma decimal_value_zeros: "decimal_value (replicate k (CHR ''0'') @ s) = decimal_value s"
proof -
  have "foldl (\<lambda>acc c. 10 * acc + digit_value c) 0 (replicate k (CHR ''0'')) = 0"
    by (induction k) (simp_all add: digit_value_def)
  then show ?thesis by (simp add: decimal_value_def)
qed

lemma decimal_length:
  "n < 10 \<Longrightarrow> length (decimal n) = 1"
  "10 \<le> n \<Longrightarrow> n < 100 \<Longrightarrow> length (decimal n) = 2"
  "100 \<le> n \<Longrightarrow> n < 1000 \<Longrightarrow> length (decimal n) = 3"
proof -
  show 1: "length (decimal n) = 1" if "n < 10" for n
    using that by (subst decimal.simps) simp
  show 2: "length (decimal n) = 2" if "10 \<le> n" "n < 100" for n
  proof -
    from that have "n div 10 < 10" by simp
    with that 1[of "n div 10"] show ?thesis by (subst decimal.simps) simp
  qed
  show "length (decimal n) = 3" if "100 \<le> n" "n < 1000"
  proof -
    from that have "10 \<le> n div 10" "n div 10 < 100" by simp_all
    with that 2[of "n div 10"] show ?thesis by (subst decimal.simps) simp
  qed
qed

lemma format_03d_length: "n < 1000 \<Longrightarrow> length (format_03d n) = 3"
proof -
  assume n: "n < 1000"
  consider "n < 10" | "10 \<le> n" "n < 100" | "100 \<le> n" by linarith
  then show ?thesis
    using n by cases (simp_all add: format_03d_def decimal_length)
qed

lemma auto_checkpoint_info_id:
  "auto_checkpoint_info d clock state cid reason = Inr info \<Longrightarrow>
     py_get info ''checkpoint_id'' JNull = Inr (JStr cid)"
  by (auto simp: auto_checkpoint_info_def ebind_def split: sum.splits)

text \<open>
  Claim C7, as the code has it. An automatic creation takes the number of files of the
  checkpoint directory that match \<open>AUTO_CP*.json\<close>, adds one and writes it after
  \<open>AUTO_CP\<close>; the checkpoint it builds carries that id. A manual creation takes the length
  of the ProgressRecord's \<open>checkpoints\<close> list, which holds the automatic entries as well
  as the manual ones, adds one and writes it after \<open>CP\<close>. The number is written in
  decimal with leading zeros, three characters for a number below 1000.
\<close>

theorem checkpoint_id_allocation:
  "next_auto_id s =
     ''AUTO_CP'' @ format_03d (length (filter is_auto_name (map fst (checkpoints_dir s))) + 1)
   \<and> (\<forall>info. auto_checkpoint_info d clock state (next_auto_id s) reason = Inr info \<longrightarrow>
         py_get info ''checkpoint_id'' JNull = Inr (JStr (next_auto_id s)))
   \<and> (\<forall>cps. py_get state ''checkpoints'' (JArr []) = Inr (JArr cps) \<longrightarrow>
         checkpoint_save_id state = Inr (''CP'' @ format_03d (length cps + 1)))
   \<and> decimal_value (format_03d n) = n
   \<and> (n < 1000 \<longrightarrow> length (format_03d n) = 3)"
proof -
  have "length (glob_auto dir) = length (filter is_auto_name (map fst dir))" for dir
    by (induction dir) (auto simp: glob_auto_def)
  then have 1: "next_auto_id s =
     ''AUTO_CP'' @ format_03d (length (filter is_auto_name (map fst (checkpoints_dir s))) + 1)"
    by (simp add: next_auto_id_def)
  have 3: "checkpoint_save_id state = Inr (''CP'' @ format_03d (length cps + 1))"
    if "py_get state ''checkpoints'' (JArr []) = Inr (JArr cps)" for cps
    using that by (simp add: checkpoint_save_id_def ebind_def)
  have 4: "decimal_value (format_03d n) = n"
    by (simp add: format_03d_def decimal_value_zeros decimal_value_decimal)
  from 1 3 4 auto_checkpoint_info_id format_03d_length show ?thesis by blast
qed

lemma ex_manual_after_auto:
  "checkpoint_save_id ex_live_state = Inr ''CP002''"
  "manual_count_id ex_live_state = Inr ''CP001''"
  "filter (\<lambda>(n, f). starts_with ''CP'' n) (checkpoints_dir ex_fs_created) = []"
  "py_get ex_live_state ''checkpoints'' (JArr []) = Inr (JArr [ex_auto_info])"
  by code_simp+

lemma ex_format_facts:
  "next_auto_id ex_fs_created = ''AUTO_CP002''"
  "format_03d (length [ex_auto_info] + 1) = ''002''"
  "length (format_03d 51) = 3"
  "decimal_value (format_03d 51) = 51"
  by code_simp+

theorem checkpoint_id_allocation_witness:
  "py_get ex_live_state ''checkpoints'' (JArr []) = Inr (JArr [ex_auto_info])
   \<and> checkpoint_save_id ex_live_state = Inr ''CP002''
   \<and> next_auto_id ex_fs_created = ''AUTO_CP002''
   \<and> (51::nat) < 1000 \<and> length (format_03d 51) = 3 \<and> decimal_value (format_03d 51) = 51"
proof -
  note t = checkpoint_id_allocation[of ex_fs_created ex_daemon ex_dclock ex_live_state TIME_BASED 51]
  have "checkpoint_save_id ex_live_state = Inr (''CP'' @ format_03d (length [ex_auto_info] + 1))"
    by (rule mp[OF spec[OF conjunct1[OF conjunct2[OF conjunct2[OF t]]]] ex_manual_after_auto(4)])
  then have 1: "checkpoint_save_id ex_live_state = Inr ''CP002''"
    unfolding ex_format_facts(2) by simp
  have 2: "(51::nat) < 1000" by simp
  have 3: "length (format_03d 51) = 3"
    by (rule mp[OF conjunct2[OF conjunct2[OF conjunct2[OF conjunct2[OF t]]]] 2])
  show ?thesis
    by (intro conjI ex_manual_after_auto(4) 1 ex_format_facts(1) 2 3 ex_format_facts(4))
qed

theorem manual_id_counts_all_counterexample:
  "checkpoint_save_id ex_live_state = Inr ''CP002''
   \<and> manual_count_id ex_live_state = Inr ''CP001''
   \<and> checkpoint_save_id ex_live_state \<noteq> manual_count_id ex_live_state
   \<and> filter (\<lambda>(n, f). starts_with ''CP'' n) (checkpoints_dir ex_fs_created) = []"
proof -
  have "checkpoint_save_id ex_live_state \<noteq> manual_count_id ex_live_state"
    unfolding ex_manual_after_auto(1) ex_manual_after_auto(2) by simp
  then show ?thesis
    by (intro conjI ex_manual_after_auto(1) ex_manual_after_auto(2) ex_manual_after_auto(3))
qed

text \<open>
  Claim C2 at a directory that holds fifty automatic checkpoints, the retention maximum:
  the first of two creations counts fifty files and writes \<open>AUTO_CP051\<close>, the pruning
  pass deletes the oldest file, the second creation counts fifty files again and writes
  a second file whose id is \<open>AUTO_CP051\<close>.
\<close>

theorem auto_checkpoint_id_reused:
  "length (checkpoints_dir ex_fs_full) = 50
   \<and> max_checkpoints ex_daemon = 50
   \<and> filter (\<lambda>(n, i). i = JStr ''AUTO_CP051'') (dir_ids (checkpoints_dir ex_fs_full)) = []
   \<and> filter (\<lambda>(n, i). i = JStr ''AUTO_CP051'') (dir_ids (checkpoints_dir ex_fs_two_more)) =
       [(''AUTO_CP051_20250101_1030_time_based.json'', JStr ''AUTO_CP051''),
        (''AUTO_CP051_20250101_1100_time_based.json'', JStr ''AUTO_CP051'')]"
  by code_simp

lemma scan_checkpoints_stops:
  "list_entry bad = Inl e \<Longrightarrow> scan_checkpoints (pre @ bad # post) acc = scan_checkpoints pre acc"
  by (induction pre arbitrary: acc) (auto split: sum.splits)

lemma scan_checkpoints_files:
  "set (map ce_file (scan_checkpoints dir acc)) \<subseteq> set (map ce_file acc) \<union> set (map fst dir)"
proof (induction dir arbitrary: acc)
  case Nil
  then show ?case by simp
next
  case (Cons nf dir)
  show ?case
  proof (cases "list_entry nf")
    case (Inl e)
    then show ?thesis by auto
  next
    case (Inr c)
    then have "ce_file c = fst nf"
      by (auto simp: list_entry_def ebind_def split: sum.splits json.splits)
    with Inr Cons.IH[of "acc @ [c]"] show ?thesis by auto
  qed
qed

lemma find_in_skips:
  "file_has_id f cid = Inl e \<Longrightarrow>
     find_in (pre @ (n, f) # post) cid =
       (case find_in pre cid of Some x \<Rightarrow> Some x | None \<Rightarrow> find_in post cid)"
  by (induction pre) (auto split: sum.splits bool.splits)

text \<open>
  Claim C10. When the scan of the checkpoint directory yields a file that cannot be
  opened or parsed, \<open>list_checkpoints\<close> lists what it gathered from the files before it
  and nothing of the files after it, so that \<open>emergency_recovery\<close> reports that no
  checkpoint is available when nothing precedes the bad file; \<open>_find_checkpoint_file\<close>
  passes over the bad file and goes on with the files after it.
\<close>

theorem list_checkpoints_stops_at_bad_file:
  assumes dir: "glob_json (checkpoints_dir s) = pre @ (n, f) # post"
    and bad: "json_load f = Inl e"
  shows "list_checkpoints s = sort_newest_first (scan_checkpoints pre [])
    \<and> scan_checkpoints (pre @ (n, f) # post) [] = scan_checkpoints pre []
    \<and> set (map ce_file (scan_checkpoints pre [])) \<subseteq> set (map fst pre)
    \<and> (scan_checkpoints pre [] = [] \<longrightarrow>
          emergency_recovery clock s =
            Inr (s, Failure ''No checkpoints available for emergency recovery''))
    \<and> find_checkpoint_file s cid =
          (case find_in pre cid of Some x \<Rightarrow> Some x | None \<Rightarrow> find_in post cid)"
proof -
  from bad have le: "list_entry (n, f) = Inl e" by (simp add: list_entry_def ebind_def)
  from bad have fh: "file_has_id f cid = Inl e" by (simp add: file_has_id_def ebind_def)
  have stop: "scan_checkpoints (pre @ (n, f) # post) [] = scan_checkpoints pre []"
    by (rule scan_checkpoints_stops[OF le])
  with dir have lc: "list_checkpoints s = sort_newest_first (scan_checkpoints pre [])"
    by (simp add: list_checkpoints_def)
  have files: "set (map ce_file (scan_checkpoints pre [])) \<subseteq> set (map fst pre)"
    using scan_checkpoints_files[of pre "[]"] by simp
  have em: "emergency_recovery clock s =
            Inr (s, Failure ''No checkpoints available for emergency recovery'')"
    if "scan_checkpoints pre [] = []"
    using that by (simp add: emergency_recovery_def lc sort_newest_first_def)
  have fnd: "find_checkpoint_file s cid =
          (case find_in pre cid of Some x \<Rightarrow> Some x | None \<Rightarrow> find_in post cid)"
    using find_in_skips[OF fh] dir by (simp add: find_checkpoint_file_def)
  from lc stop files em fnd show ?thesis by blast
qed

lemma ex_corrupt_facts:
  "glob_json (checkpoints_dir ex_fs_corrupt_first) =
     [] @ (''AUTO_CP000_20250101_0900_broken.json'', plain_file (Raw ''{''))
        # checkpoints_dir ex_fs_created"
  "json_load (plain_file (Raw ''{'')) = Inl JSONDecodeError"
  "recovery_feasible (validate_checkpoint ex_fs_corrupt_first ''AUTO_CP001'')"
  "scan_checkpoints [] [] = []"
  "find_in [] ''AUTO_CP001'' = None"
  "find_in (checkpoints_dir ex_fs_created) ''AUTO_CP001''
     = Some (''AUTO_CP001_20250101_1030_time_based.json'',
           \<lparr>readable = True, writable = True, mtime = 1800,
            body = Doc (auto_checkpoint_data ex_dclock ex_auto_info ex_state)\<rparr>)"
  by code_simp+

theorem list_checkpoints_stops_at_bad_file_witness:
  "json_load (plain_file (Raw ''{'')) = Inl JSONDecodeError
   \<and> list_checkpoints ex_fs_corrupt_first = Inr []
   \<and> emergency_recovery ex_clock ex_fs_corrupt_first =
        Inr (ex_fs_corrupt_first, Failure ''No checkpoints available for emergency recovery'')
   \<and> find_checkpoint_file ex_fs_corrupt_first ''AUTO_CP001''
       = Some (''AUTO_CP001_20250101_1030_time_based.json'',
           \<lparr>readable = True, writable = True, mtime = 1800,
            body = Doc (auto_checkpoint_data ex_dclock ex_auto_info ex_state)\<rparr>)
   \<and> recovery_feasible (validate_checkpoint ex_fs_corrupt_first ''AUTO_CP001'')"
proof -
  note t = list_checkpoints_stops_at_bad_file[OF ex_corrupt_facts(1) ex_corrupt_facts(2),
      of ex_clock "''AUTO_CP001''"]
  have 1: "list_checkpoints ex_fs_corrupt_first = Inr []"
    using conjunct1[OF t] by (simp add: sort_newest_first_def)
  have 2: "emergency_recovery ex_clock ex_fs_corrupt_first =
        Inr (ex_fs_corrupt_first, Failure ''No checkpoints available for emergency recovery'')"
    by (rule mp[OF conjunct1[OF conjunct2[OF conjunct2[OF conjunct2[OF t]]]] ex_corrupt_facts(4)])
  have 3: "find_checkpoint_file ex_fs_corrupt_first ''AUTO_CP001''
       = Some (''AUTO_CP001_20250101_1030_time_based.json'',
           \<lparr>readable = True, writable = True, mtime = 1800,
            body = Doc (auto_checkpoint_data ex_dclock ex_auto_info ex_state)\<rparr>)"
    unfolding conjunct2[OF conjunct2[OF conjunct2[OF conjunct2[OF t]]]]
      ex_corrupt_facts(5) ex_corrupt_facts(6) by simp
  show ?thesis
    by (intro conjI ex_corrupt_facts(2) 1 2 3 ex_corrupt_facts(3))
qed

lemma thread_step_keeps_lost:
  assumes "seen_exact t" and "(if is_scan a then th_pending t = None else True)"
  shows "seen_exact (thread_step a t) \<and> th_lost (thread_step a t) = th_lost t"
proof (cases a)
  case (Decision now clock)
  show ?thesis
  proof (cases "th_pending t")
    case None
    then show ?thesis
      using Decision
      by (auto simp: seen_exact_def split: prod.splits option.splits)
  next
    case (Some p)
    with assms(1) have "file_change_count (th_daemon t) = th_seen t"
      by (simp add: seen_exact_def)
    with Some Decision show ?thesis
      by (auto simp: seen_exact_def fire_checkpoint_def Let_def split: prod.splits)
  qed
next
  case (Scan changes)
  with assms show ?thesis by (simp add: seen_exact_def)
qed

lemma run_threads_keeps_lost:
  "seen_exact t \<Longrightarrow> scans_between_cycles acts t \<Longrightarrow>
     seen_exact (run_threads acts t) \<and> th_lost (run_threads acts t) = th_lost t"
proof (induction acts arbitrary: t)
  case Nil
  then show ?case by simp
next
  case (Cons a acts)
  from Cons.prems have a: "(if is_scan a then th_pending t = None else True)"
    and rest: "scans_between_cycles acts (thread_step a t)" by simp_all
  from thread_step_keeps_lost[OF Cons.prems(1) a] Cons.IH[OF _ rest] show ?case by simp
qed

text \<open>Two steps of the checkpoint thread with nothing in between are one cycle.\<close>

lemma decision_steps_are_cycle:
  assumes "th_pending t = None"
  shows "(case checkpoint_cycle (th_daemon t) now clock (th_fs t) of
            (d', s', Some reason) \<Rightarrow>
              th_daemon (thread_step (Decision now2 clock) (thread_step (Decision now clock) t)) = d'
              \<and> th_fs (thread_step (Decision now2 clock) (thread_step (Decision now clock) t)) = s'
          | (d', s', None) \<Rightarrow>
              th_daemon (thread_step (Decision now clock) t) = d'
              \<and> th_fs (thread_step (Decision now clock) t) = s')"
  using assms
  by (auto simp: checkpoint_cycle_def Let_def split: prod.splits option.splits)

lemma checkpoint_decision_count:
  "file_change_count (snd (checkpoint_decision d now s)) = file_change_count d"
  using state_changed_fields(2)[of d s]
  by (auto simp: checkpoint_decision_def Let_def split: prod.splits bool.splits)

lemma thread_step_balance: "balance (thread_step a t) = balance t + scanned [a]"
proof (cases a)
  case (Decision now clock)
  show ?thesis
  proof (cases "th_pending t")
    case None
    obtain r d1 where cd: "checkpoint_decision (th_daemon t) now (th_fs t) = (r, d1)"
      by (cases "checkpoint_decision (th_daemon t) now (th_fs t)")
    with checkpoint_decision_count[of "th_daemon t" now "th_fs t"]
    have "file_change_count d1 = file_change_count (th_daemon t)" by simp
    with None Decision cd show ?thesis
      by (cases r) (simp_all add: balance_def)
  next
    case (Some p)
    with Decision show ?thesis
      by (auto simp: balance_def fire_checkpoint_def Let_def split: prod.splits)
  qed
next
  case (Scan changes)
  then show ?thesis by (simp add: balance_def monitor_cycle_def)
qed

lemma run_threads_balance: "balance (run_threads acts t) = balance t + scanned acts"
proof (induction acts arbitrary: t)
  case Nil
  then show ?case by simp
next
  case (Cons a acts)
  have "scanned (a # acts) = scanned [a] + scanned acts" by (cases a) simp_all
  with Cons.IH[of "thread_step a t"] thread_step_balance[of a t] show ?case by simp
qed

text \<open>
  Claim C9, as the code has it. The counter is updated and reset without a lock. In the
  runs where no update of the monitor thread falls between the test and the reset of a
  cycle of the checkpoint thread, every reset erases exactly the count that the test
  saw, and no increment is lost. In every run that ends between two cycles, the
  increments applied by the monitor thread are in the counter, were seen by a test that
  chose a reason, or are lost.
\<close>

theorem counter_kept_between_cycles:
  assumes "th_pending t = None"
  shows "(scans_between_cycles acts t \<longrightarrow> th_lost (run_threads acts t) = th_lost t)
    \<and> (th_pending (run_threads acts t) = None \<longrightarrow>
          file_change_count (th_daemon (run_threads acts t)) + th_counted (run_threads acts t)
            + th_lost (run_threads acts t)
          = file_change_count (th_daemon t) + th_counted t + th_lost t + scanned acts)"
proof -
  have 1: "th_lost (run_threads acts t) = th_lost t" if "scans_between_cycles acts t"
    using run_threads_keeps_lost[of t acts] assms that by (simp add: seen_exact_def)
  have 2: "file_change_count (th_daemon (run_threads acts t)) + th_counted (run_threads acts t)
            + th_lost (run_threads acts t)
          = file_change_count (th_daemon t) + th_counted t + th_lost t + scanned acts"
    if "th_pending (run_threads acts t) = None"
    using run_threads_balance[of acts t] assms that by (simp add: balance_def)
  from 1 2 show ?thesis by blast
qed

lemma ex_threads_serial:
  "th_pending ex_threads = None"
  "scans_between_cycles
     [Scan [''a.py'', ''b.py''], Decision 1800 ex_dclock, Decision 1800 ex_dclock, Scan [''c.py'']]
     ex_threads"
  by code_simp+

theorem counter_kept_between_cycles_witness:
  "th_pending ex_threads = None
   \<and> scans_between_cycles
       [Scan [''a.py'', ''b.py''], Decision 1800 ex_dclock, Decision 1800 ex_dclock, Scan [''c.py'']]
       ex_threads
   \<and> th_lost (run_threads
       [Scan [''a.py'', ''b.py''], Decision 1800 ex_dclock, Decision 1800 ex_dclock, Scan [''c.py'']]
       ex_threads) = th_lost ex_threads"
proof -
  note t = counter_kept_between_cycles[OF ex_threads_serial(1),
      of "[Scan [''a.py'', ''b.py''], Decision 1800 ex_dclock, Decision 1800 ex_dclock, Scan [''c.py'']]"]
  have "th_lost (run_threads
       [Scan [''a.py'', ''b.py''], Decision 1800 ex_dclock, Decision 1800 ex_dclock, Scan [''c.py'']]
       ex_threads) = th_lost ex_threads"
    by (rule mp[OF conjunct1[OF t] ex_threads_serial(2)])
  then show ?thesis
    by (intro conjI ex_threads_serial(1) ex_threads_serial(2))
qed

theorem counter_increment_lost_counterexample:
  "th_lost ex_threads = 0
   \<and> scanned [Decision 1800 ex_dclock, Scan [''a.py'', ''b.py''], Decision 1800 ex_dclock] = 2
   \<and> th_lost (run_threads
        [Decision 1800 ex_dclock, Scan [''a.py'', ''b.py''], Decision 1800 ex_dclock]
        ex_threads) = 2
   \<and> th_counted (run_threads
        [Decision 1800 ex_dclock, Scan [''a.py'', ''b.py''], Decision 1800 ex_dclock]
        ex_threads) = 0
   \<and> file_change_count (th_daemon (run_threads
        [Decision 1800 ex_dclock, Scan [''a.py'', ''b.py''], Decision 1800 ex_dclock]
        ex_threads)) = 0"
  by code_simp

end
